theory Spec2Isabelle
  imports Main "HOL-Library.Sublist"
begin

text \<open>
  A model of \<^verbatim>\<open>ebay-crawler.go\<close>: a crawler that fetches the pages of a product listing,
  finds the listing entries in the parsed markup, extracts a record from each entry, writes
  it to \<^verbatim>\<open>data/<id>.json\<close> and follows the next-page link. The definitions follow the
  source function by function and keep its names; line numbers refer to
  \<^verbatim>\<open>src/ebay-crawler.go\<close>. Strings are the byte strings of Go. The flag parsing of
  \<^verbatim>\<open>main\<close> (lines 28-36) only builds the first page URL and is left out: the loop of
  \<^verbatim>\<open>main\<close> takes that URL as its argument.
\<close>

section \<open>The markup tree (golang.org/x/net/html)\<close>

text \<open>
  The crawler works on \<^verbatim>\<open>*html.Node\<close> values. A node has a kind, a data string (the tag
  name of an element, the text of a text node), an ordered list of attributes and an
  ordered list of children (the \<^verbatim>\<open>FirstChild\<close>/\<^verbatim>\<open>NextSibling\<close> chain of the Go struct).
  The tree is never mutated after parsing, so a node is modelled by the value of its
  subtree.
\<close>

datatype NodeType =
  ErrorNode | TextNode | DocumentNode | ElementNode | CommentNode | DoctypeNode | RawNode

record Attribute =
  Namespace :: string
  Key :: string
  Val :: string

datatype Node = Node (Type: NodeType) (Data: string) (Attr: "Attribute list") (Children: "Node list")

text \<open>
  \<^verbatim>\<open>strings.Contains(s, substr)\<close>: \<open>substr\<close> occurs in \<open>s\<close> as a contiguous block. The empty
  string is contained in every string.
\<close>

fun strings_Contains :: "string \<Rightarrow> string \<Rightarrow> bool" where
  "strings_Contains [] substr = (substr = [])"
| "strings_Contains (c # cs) substr = (prefix substr (c # cs) \<or> strings_Contains cs substr)"

text \<open>
  A Go slice can be \<^verbatim>\<open>nil\<close>, which is not the same value as an empty slice: \<open>None\<close> is the
  nil slice. \<^verbatim>\<open>append\<close> to a nil slice allocates.
\<close>

type_synonym 'a slice = "'a list option"

fun go_append :: "'a slice \<Rightarrow> 'a \<Rightarrow> 'a slice" where
  "go_append None x = Some [x]"
| "go_append (Some xs) x = Some (xs @ [x])"

fun go_len :: "'a slice \<Rightarrow> nat" where
  "go_len None = 0"
| "go_len (Some xs) = length xs"

section \<open>Tree matcher\<close>

text \<open>
  The attribute loop of \<^verbatim>\<open>findItemElementsByClass\<close> (lines 128-140). It carries the two
  locals \<^verbatim>\<open>class\<close> and \<^verbatim>\<open>id\<close> (here \<open>idv\<close>), both initially empty, and answers whether the node is appended:
  the loop appends and breaks as soon as both locals are non-empty after an attribute.
\<close>

fun classIdScan :: "string \<Rightarrow> Attribute list \<Rightarrow> string \<Rightarrow> string \<Rightarrow> bool" where
  "classIdScan className [] class idv = False"
| "classIdScan className (a # as) class idv =
     (let class' = (if Key a = ''class'' \<and> strings_Contains (Val a) className
                    then Val a else class);
          idv' = (if Key a = ''class'' \<and> strings_Contains (Val a) className then idv
                  else if Key a = ''id'' \<and> Val a \<noteq> '''' then Val a else idv)
      in if class' \<noteq> '''' \<and> idv' \<noteq> '''' then True
         else classIdScan className as class' idv')"

text \<open>
  \<^verbatim>\<open>findItemElementsByClass\<close> (lines 123-148): the node itself first, then every child in
  order, whatever the child's kind, threading the result slice through.
\<close>

fun findItemElementsByClass :: "Node \<Rightarrow> string \<Rightarrow> string \<Rightarrow> Node slice \<Rightarrow> Node slice"
  and findItemElementsByClass_children :: "Node list \<Rightarrow> string \<Rightarrow> string \<Rightarrow> Node slice \<Rightarrow> Node slice"
where
  "findItemElementsByClass (Node t d as cs) elementType className itemList =
     findItemElementsByClass_children cs elementType className
       (if t = ElementNode \<and> d = elementType \<and> classIdScan className as '''' ''''
        then go_append itemList (Node t d as cs) else itemList)"
| "findItemElementsByClass_children [] elementType className itemList = itemList"
| "findItemElementsByClass_children (c # cs) elementType className itemList =
     findItemElementsByClass_children cs elementType className
       (findItemElementsByClass c elementType className itemList)"

text \<open>
  \<^verbatim>\<open>findFirstElementByAttr\<close> (lines 151-173). The node itself is tested first; then the
  children in order, but only children that are elements are searched (line 164). The local
  \<^verbatim>\<open>nodeFound\<close> is false whenever the child loop runs, since the match returns at once.
  \<open>None\<close> is the \<^verbatim>\<open>nil\<close> pointer.
\<close>

fun findFirstElementByAttr :: "Node \<Rightarrow> string \<Rightarrow> string \<Rightarrow> string \<Rightarrow> Node option"
  and findFirstElementByAttr_children :: "Node list \<Rightarrow> string \<Rightarrow> string \<Rightarrow> string \<Rightarrow> Node option"
where
  "findFirstElementByAttr (Node t d as cs) elementType attrName attrValue =
     (if t = ElementNode \<and> d = elementType \<and>
         list_ex (\<lambda>a. Key a = attrName \<and> strings_Contains (Val a) attrValue) as
      then Some (Node t d as cs)
      else findFirstElementByAttr_children cs elementType attrName attrValue)"
| "findFirstElementByAttr_children [] elementType attrName attrValue = None"
| "findFirstElementByAttr_children (c # cs) elementType attrName attrValue =
     (if Type c = ElementNode
      then (case findFirstElementByAttr c elementType attrName attrValue of
              Some tempNode \<Rightarrow> Some tempNode
            | None \<Rightarrow> findFirstElementByAttr_children cs elementType attrName attrValue)
      else findFirstElementByAttr_children cs elementType attrName attrValue)"

text \<open>
  A Go function returning \<^verbatim>\<open>(string, error)\<close> returns both values: the pair of the string
  and the error, \<open>None\<close> for a nil error. An error is its message.
\<close>

type_synonym error = "string option"

text \<open>\<^verbatim>\<open>getElementNodeVal\<close> (lines 176-184): the data of the first direct child that is a text node.\<close>

definition getElementNodeVal :: "Node \<Rightarrow> string \<times> error" where
  "getElementNodeVal node =
     (case find (\<lambda>c. Type c = TextNode) (Children node) of
        Some c \<Rightarrow> (Data c, None)
      | None \<Rightarrow> ('''', Some ''ERROR::No text node found''))"

text \<open>\<^verbatim>\<open>getElementAttrByName\<close> (lines 275-287): the value of the first attribute of that name.\<close>

definition getElementAttrByName :: "Node \<Rightarrow> string \<Rightarrow> string \<times> error" where
  "getElementAttrByName node attrName =
     (if Type node = ElementNode
      then (case find (\<lambda>a. Key a = attrName) (Attr node) of
              Some a \<Rightarrow> (Val a, None)
            | None \<Rightarrow> ('''', Some (''ERROR::Attribute '' @ attrName @ '' not found'')))
      else ('''', Some ''ERROR::Node is not an element''))"

section \<open>Regular expressions (package regexp)\<close>

text \<open>
  The two patterns of the program, and the fragment of the RE2 syntax they are written in:
  single-character atoms, concatenation, greedy repetition of an atom, an optional part and
  numbered capturing groups. Go's \<^verbatim>\<open>regexp\<close> returns, among the matches that start
  leftmost, the one a backtracking search finds first; \<open>rmatch\<close> is that search, with the
  rest of the pattern as a continuation, and \<open>star\<close> tries the longest repetition first.
\<close>

datatype atom = Lit char | Digit | OneOf string

fun atom_ok :: "atom \<Rightarrow> char \<Rightarrow> bool" where
  "atom_ok (Lit c) x = (x = c)"
| "atom_ok Digit x = (x \<in> set ''0123456789'')"
| "atom_ok (OneOf cs) x = (x \<in> set cs)"

datatype regexp =
  Atom atom | Seq regexp regexp | Star atom | Plus atom | Opt regexp | Group nat regexp

type_synonym captures = "nat \<Rightarrow> string option"

fun star :: "(char \<Rightarrow> bool) \<Rightarrow> string \<Rightarrow> (string \<Rightarrow> 'r option) \<Rightarrow> 'r option" where
  "star p [] k = k []"
| "star p (c # cs) k =
     (if p c then (case star p cs k of Some r \<Rightarrow> Some r | None \<Rightarrow> k (c # cs))
      else k (c # cs))"

fun rmatch :: "regexp \<Rightarrow> string \<Rightarrow> captures \<Rightarrow> (string \<Rightarrow> captures \<Rightarrow> 'r option) \<Rightarrow> 'r option" where
  "rmatch (Atom a) s cp k =
     (case s of [] \<Rightarrow> None | c # t \<Rightarrow> if atom_ok a c then k t cp else None)"
| "rmatch (Seq r1 r2) s cp k = rmatch r1 s cp (\<lambda>s' cp'. rmatch r2 s' cp' k)"
| "rmatch (Star a) s cp k = star (atom_ok a) s (\<lambda>s'. k s' cp)"
| "rmatch (Plus a) s cp k =
     (case s of [] \<Rightarrow> None
      | c # t \<Rightarrow> if atom_ok a c then star (atom_ok a) t (\<lambda>s'. k s' cp) else None)"
| "rmatch (Opt r) s cp k =
     (case rmatch r s cp k of Some x \<Rightarrow> Some x | None \<Rightarrow> k s cp)"
| "rmatch (Group i r) s cp k =
     rmatch r s cp (\<lambda>s' cp'. k s' (cp'(i \<mapsto> take (length s - length s') s)))"

text \<open>The unanchored search: the leftmost start position at which the pattern matches.\<close>

fun leftmost :: "regexp \<Rightarrow> string \<Rightarrow> (string \<times> captures) option" where
  "leftmost r [] =
     (case rmatch r [] Map.empty (\<lambda>s' cp. Some (s', cp)) of
        Some (s', cp) \<Rightarrow> Some ([], cp)
      | None \<Rightarrow> None)"
| "leftmost r (c # t) =
     (case rmatch r (c # t) Map.empty (\<lambda>s' cp. Some (s', cp)) of
        Some (s', cp) \<Rightarrow> Some (take (length (c # t) - length s') (c # t), cp)
      | None \<Rightarrow> leftmost r t)"

fun numSubexp :: "regexp \<Rightarrow> nat" where
  "numSubexp (Atom a) = 0"
| "numSubexp (Seq r1 r2) = max (numSubexp r1) (numSubexp r2)"
| "numSubexp (Star a) = 0"
| "numSubexp (Plus a) = 0"
| "numSubexp (Opt r) = numSubexp r"
| "numSubexp (Group i r) = max i (numSubexp r)"

text \<open>
  \<^verbatim>\<open>(*Regexp).FindStringSubmatch\<close>: nil when there is no match; otherwise the matched text
  followed by the text of each group, empty for a group that took no part in the match.
\<close>

definition FindStringSubmatch :: "regexp \<Rightarrow> string \<Rightarrow> string list option" where
  "FindStringSubmatch r s =
     (case leftmost r s of
        None \<Rightarrow> None
      | Some (m, cp) \<Rightarrow>
          Some (m # map (\<lambda>i. case cp i of None \<Rightarrow> '''' | Some g \<Rightarrow> g) [1 ..< Suc (numSubexp r)]))"

text \<open>\<^verbatim>\<open>const priceRegEx string = `\d+[\.,]*\d*`\<close> (line 24).\<close>

definition priceRegEx :: regexp where
  "priceRegEx = Seq (Plus Digit) (Seq (Star (OneOf ''.,'')) (Star Digit))"

text \<open>
  \<^verbatim>\<open>const itemIDRegEx string = `itm\/([0-9]+)\?`\<close> (line 25). The two backslashes escape:
  the last character of the pattern is a literal question mark, not the optional operator.
\<close>

definition itemIDRegEx :: regexp where
  "itemIDRegEx =
     Seq (Atom (Lit CHR ''i'')) (Seq (Atom (Lit CHR ''t'')) (Seq (Atom (Lit CHR ''m''))
       (Seq (Atom (Lit CHR ''/'')) (Seq (Group 1 (Plus Digit)) (Atom (Lit CHR ''?''))))))"

section \<open>The outside world\<close>

text \<open>
  What the program calls and does not define: the HTTP client, the HTML parser and the
  file system. They are parameters of the model, so that every theorem holds for whatever
  they answer. A call that returns \<^verbatim>\<open>(T, error)\<close> answers \<open>Inl\<close> of the error message
  or \<open>Inr\<close> of the value. The file system has a state of type \<open>'fs\<close>; a call on it
  returns its error and the new state.
\<close>

record ItemInfo =
  Title :: string
  Condition :: string
  Price :: string
  ProductURL :: string

record 'fs env =
  http_NewRequest :: "string \<Rightarrow> string + string"
  http_Do :: "string \<Rightarrow> string + string"
  io_ReadAll :: "string \<Rightarrow> string + string"
  html_Parse :: "string \<Rightarrow> string + Node"
  os_Mkdir :: "string \<Rightarrow> 'fs \<Rightarrow> error \<times> 'fs"
  os_WriteFile :: "string \<Rightarrow> ItemInfo \<Rightarrow> 'fs \<Rightarrow> error \<times> 'fs"

text \<open>
  The state the program acts on: what it has printed (one entry per print call), the URLs
  it has asked \<^verbatim>\<open>getPageHTML\<close> for, in order, and the file system. The data handed
  to \<^verbatim>\<open>os.WriteFile\<close> is the item itself, which stands for its
  \<^verbatim>\<open>json.MarshalIndent\<close> text.
\<close>

record 'fs world =
  stdout :: "string list"
  fetched :: "string list"
  disk :: "'fs"

definition fmt_Print :: "string \<Rightarrow> 'fs world \<Rightarrow> 'fs world" where
  "fmt_Print s w = w\<lparr>stdout := stdout w @ [s]\<rparr>"

text \<open>The verb \<^verbatim>\<open>%d\<close> of a length: its decimal digits.\<close>

function string_of_nat :: "nat \<Rightarrow> string" where
  "string_of_nat n =
     (if n < 10 then [char_of (48 + n)]
      else string_of_nat (n div 10) @ [char_of (48 + n mod 10)])"
  by pat_completeness auto
termination
  by (relation "measure id") auto

declare string_of_nat.simps [simp del]

text \<open>\<^verbatim>\<open>getPageHTML\<close> (lines 102-120).\<close>

definition getPageHTML :: "'fs env \<Rightarrow> string \<Rightarrow> string \<times> error" where
  "getPageHTML e url =
     (case http_NewRequest e url of
        Inl err \<Rightarrow> ('''', Some (''ERROR::Can't create request: '' @ err))
      | Inr req \<Rightarrow>
          (case http_Do e req of
             Inl err \<Rightarrow> ('''', Some (''ERROR::Can't make http request: '' @ err))
           | Inr res \<Rightarrow>
               (case io_ReadAll e res of
                  Inl err \<Rightarrow> ('''', Some (''ERROR::Can't read http response body: '' @ err))
                | Inr body \<Rightarrow> (body, None))))"

section \<open>Item pipeline\<close>

text \<open>
  \<^verbatim>\<open>processItemNode\<close> (lines 187-272). It returns its error and the world it leaves.
  Where \<^verbatim>\<open>fmt.Errorf\<close> formats an \<^verbatim>\<open>err\<close> that is nil at that point (lines 202 and
  224), the verb \<^verbatim>\<open>%s\<close> prints \<^verbatim>\<open>%!s(<nil>)\<close>. The results of
  \<^verbatim>\<open>json.MarshalIndent\<close> and \<^verbatim>\<open>os.WriteFile\<close> are assigned to the blank identifier
  (lines 267 and 269), and the function then returns nil.
\<close>

definition processItemNode :: "'fs env \<Rightarrow> Node \<Rightarrow> 'fs world \<Rightarrow> error \<times> 'fs world" where
  "processItemNode e node w =
    (case findFirstElementByAttr node ''a'' ''class'' ''s-item__link'' of
       None \<Rightarrow> (Some ''ERROR::Item link node not found'', w)
     | Some itemLink \<Rightarrow>
    (case getElementAttrByName itemLink ''href'' of
       (href, Some err) \<Rightarrow> (Some (''ERROR::'' @ err), w)
     | (href, None) \<Rightarrow>
    (case FindStringSubmatch itemIDRegEx href of
       None \<Rightarrow> (Some ''ERROR::Price value cannot be parsed\<newline>%!s(<nil>)'', w)
     | Some matches \<Rightarrow>
    if length matches < 2 then (Some ''ERROR::Item ID cannot be parsed'', w) else
    let itemID = matches ! 1 in
    (case findFirstElementByAttr node ''span'' ''class'' ''s-item__price'' of
       None \<Rightarrow> (Some ''ERROR::Price node not found'', w)
     | Some priceNode \<Rightarrow>
    (case getElementNodeVal priceNode of
       (price, Some err) \<Rightarrow> (Some (''ERROR::Price value not found\<newline>'' @ err), w)
     | (price, None) \<Rightarrow>
    (case FindStringSubmatch priceRegEx price of
       None \<Rightarrow> (Some ''ERROR::Price value cannot be parsed\<newline>%!s(<nil>)'', w)
     | Some matches \<Rightarrow>
    let price = matches ! 0 in
    (case findFirstElementByAttr node ''div'' ''class'' ''s-item__title'' of
       None \<Rightarrow> (Some ''ERROR::Title DIV node not found'', w)
     | Some titleDivNode \<Rightarrow>
    (case findFirstElementByAttr titleDivNode ''span'' ''role'' ''heading'' of
       None \<Rightarrow> (Some ''ERROR::Title SPAN node not found'', w)
     | Some titleNode \<Rightarrow>
    (case getElementNodeVal titleNode of
       (title, Some err) \<Rightarrow> (Some (''ERROR::Title value not found\<newline>'' @ err), w)
     | (title, None) \<Rightarrow>
    let write = (\<lambda>condition w.
          let item = \<lparr>Title = title, Condition = condition, Price = price, ProductURL = href\<rparr>
          in (None,
              w\<lparr>disk := snd (os_WriteFile e (''data/'' @ itemID @ ''.json'') item (disk w))\<rparr>))
    in
    (case findFirstElementByAttr node ''div'' ''class'' ''s-item__subtitle'' of
       None \<Rightarrow>
         write '''' (fmt_Print (''WARNING::Condition DIV node not found '' @ itemID @ ''\<newline>'') w)
     | Some subtitleNode \<Rightarrow>
    (case findFirstElementByAttr subtitleNode ''span'' ''class'' ''SECONDARY_INFO'' of
       None \<Rightarrow> (Some ''ERROR::Condition SPAN node not found'', w)
     | Some conditionNode \<Rightarrow>
    (case getElementNodeVal conditionNode of
       (condition, Some err) \<Rightarrow> (Some (''ERROR::Condition value not found\<newline>'' @ err), w)
     | (condition, None) \<Rightarrow> write condition w))))))))))))"

section \<open>Page crawler\<close>

text \<open>
  The item tasks of one page (lines 77-87). Each \<^verbatim>\<open>go processItemNode(...)\<close> statement
  discards the value the call returns; the lines that would have printed it are commented
  out (lines 82-84). The tasks share no variable, so the model runs them one after the other
  in list order and keeps only the world each one leaves.
\<close>

fun runItems :: "'fs env \<Rightarrow> Node list \<Rightarrow> 'fs world \<Rightarrow> 'fs world" where
  "runItems e [] w = w"
| "runItems e (n # ns) w = runItems e ns (snd (processItemNode e n w))"

text \<open>
  One pass through the body of the loop of \<^verbatim>\<open>main\<close> (lines 39-97) ends in one of three
  ways: \<^verbatim>\<open>os.Exit(1)\<close>, \<^verbatim>\<open>break\<close>, or the next pass with the value \<^verbatim>\<open>pageURL\<close> then has.
\<close>

datatype control = Exit1 | Break | NextPass string

definition loopBody :: "'fs env \<Rightarrow> string \<Rightarrow> 'fs world \<Rightarrow> control \<times> 'fs world" where
  "loopBody e pageURL w0 =
    (let w = w0\<lparr>fetched := fetched w0 @ [pageURL]\<rparr> in
     case getPageHTML e pageURL of
       (bodyHTML, Some err) \<Rightarrow> (Exit1, fmt_Print (err @ ''\<newline>'') w)
     | (bodyHTML, None) \<Rightarrow>
    (case html_Parse e bodyHTML of
       Inl err \<Rightarrow> (Exit1, fmt_Print ''Can't parse HTML\<newline>'' w)
     | Inr pageHTML \<Rightarrow>
    (case findItemElementsByClass pageHTML ''li'' ''s-item'' (Some []) of
       None \<Rightarrow> (Exit1, fmt_Print ''Failed to get items\<newline>'' w)
     | Some itemElementList \<Rightarrow>
    if length itemElementList = 0 then (Exit1, fmt_Print ''Failed to get items\<newline>'' w) else
    let nextButtonNode = findFirstElementByAttr pageHTML ''a'' ''class'' ''pagination__next icon-link'';
        w = fmt_Print (''Found '' @ string_of_nat (length itemElementList) @ '' items\<newline>'') w;
        w = w\<lparr>disk := snd (os_Mkdir e ''data'' (disk w))\<rparr>;
        w = runItems e itemElementList w
    in
    (case nextButtonNode of
       Some nextButton \<Rightarrow>
         (case getElementAttrByName nextButton ''href'' of
            (pageURL, Some err) \<Rightarrow>
              (NextPass pageURL, fmt_Print (''ERROR::Failed to get next page '' @ err @ ''\<newline>'') w)
          | (pageURL, None) \<Rightarrow> (NextPass pageURL, w))
     | None \<Rightarrow> (Break, w)))))"

text \<open>
  The loop of \<^verbatim>\<open>main\<close>, from the page URL the flag parsing has built. The loop has no
  bound of its own, so the model counts passes: \<open>None\<close> says that the program is still
  running after that many passes, \<open>Some c\<close> that it has exited with status \<open>c\<close>.
\<close>

fun mainLoop :: "'fs env \<Rightarrow> nat \<Rightarrow> string \<Rightarrow> 'fs world \<Rightarrow> nat option \<times> 'fs world" where
  "mainLoop e 0 pageURL w = (None, w)"
| "mainLoop e (Suc fuel) pageURL w =
     (case loopBody e pageURL w of
        (Exit1, w') \<Rightarrow> (Some 1, w')
      | (Break, w') \<Rightarrow> (Some 0, w')
      | (NextPass pageURL', w') \<Rightarrow> mainLoop e fuel pageURL' w')"

section \<open>Vocabulary of the specification\<close>

text \<open>Document order: a node before its descendants, the children left to right.\<close>

fun preorder :: "Node \<Rightarrow> Node list" where
  "preorder (Node t d as cs) = Node t d as cs # concat (map preorder cs)"

text \<open>
  The qualification of \<^verbatim>\<open>findAllByClass\<close> as the specification words it: an element of
  the tag with a \<^verbatim>\<open>class\<close> attribute that contains the substring and a non-empty
  \<^verbatim>\<open>id\<close> attribute.
\<close>

definition hasClassAndId :: "string \<Rightarrow> string \<Rightarrow> Node \<Rightarrow> bool" where
  "hasClassAndId tag classSubstring n =
     (Type n = ElementNode \<and> Data n = tag \<and>
      list_ex (\<lambda>a. Key a = ''class'' \<and> strings_Contains (Val a) classSubstring) (Attr n) \<and>
      list_ex (\<lambda>a. Key a = ''id'' \<and> Val a \<noteq> '''') (Attr n))"

text \<open>
  The qualification of \<^verbatim>\<open>findFirstByAttr\<close> as the specification words it: an element of
  the tag with an attribute of the name whose value contains the substring.
\<close>

definition attrQualifies :: "string \<Rightarrow> string \<Rightarrow> string \<Rightarrow> Node \<Rightarrow> bool" where
  "attrQualifies tag attrName valueSubstring n =
     (Type n = ElementNode \<and> Data n = tag \<and>
      list_ex (\<lambda>a. Key a = attrName \<and> strings_Contains (Val a) valueSubstring) (Attr n))"

text \<open>
  The title span as the specification words it: a \<^verbatim>\<open><span>\<close> with the attribute
  \<^verbatim>\<open>role="heading"\<close>, the value being exactly that.
\<close>

definition roleIsHeading :: "Node \<Rightarrow> bool" where
  "roleIsHeading n =
     (Type n = ElementNode \<and> Data n = ''span'' \<and>
      list_ex (\<lambda>a. Key a = ''role'' \<and> Val a = ''heading'') (Attr n))"

text \<open>
  The shape of a tree that \<^verbatim>\<open>html.Parse\<close> builds: below the root, only elements have
  children (text, comment and doctype nodes are leaves). The root itself is the document
  node, or any node of such a tree.
\<close>

fun parsedShape :: "Node \<Rightarrow> bool" and parsedShape_children :: "Node list \<Rightarrow> bool" where
  "parsedShape (Node t d as cs) = parsedShape_children cs"
| "parsedShape_children [] = True"
| "parsedShape_children (c # cs) =
     ((Type c = ElementNode \<or> Children c = []) \<and> parsedShape c \<and> parsedShape_children cs)"

text \<open>The test at the head of \<^verbatim>\<open>findItemElementsByClass\<close> under which the node is appended.\<close>

definition appended :: "string \<Rightarrow> string \<Rightarrow> Node \<Rightarrow> bool" where
  "appended elementType className n =
     (Type n = ElementNode \<and> Data n = elementType \<and> classIdScan className (Attr n) '''' '''')"

text \<open>The character classes of the two patterns.\<close>

definition digit :: "char \<Rightarrow> bool" where
  "digit c = (c \<in> set ''0123456789'')"

definition separator :: "char \<Rightarrow> bool" where
  "separator c = (c \<in> set ''.,'')"

text \<open>
  The first numeric token of a text: from its first digit on, the run of digits, then the
  run of dots and commas, then the run of digits.
\<close>

definition firstPriceToken :: "string \<Rightarrow> string" where
  "firstPriceToken s =
     (let s1 = dropWhile (\<lambda>c. \<not> digit c) s;
          s2 = dropWhile digit s1;
          s3 = dropWhile separator s2
      in takeWhile digit s1 @ takeWhile separator s2 @ takeWhile digit s3)"

text \<open>The tail of \<open>itemIDRegEx\<close> after \<^verbatim>\<open>itm\/\<close>.\<close>

definition digitsThenQuestionMark :: regexp where
  "digitsThenQuestionMark = Seq (Group 1 (Plus Digit)) (Atom (Lit CHR ''?''))"

text \<open>
  The pattern as the specification prints it, \<^verbatim>\<open>itm/([0-9]+)?\<close>, read as a regular
  expression: the group is optional.
\<close>

definition specItemIDPattern :: regexp where
  "specItemIDPattern =
     Seq (Atom (Lit CHR ''i'')) (Seq (Atom (Lit CHR ''t'')) (Seq (Atom (Lit CHR ''m''))
       (Seq (Atom (Lit CHR ''/'')) (Opt (Group 1 (Plus Digit))))))"

text \<open>
  The part of \<^verbatim>\<open>processItemNode\<close> that extracts the mandatory fields (lines 189-241), on
  its own: the error it returns, or the item ID, the href, the price and the title.
\<close>

definition mandatoryFields :: "Node \<Rightarrow> string + (string \<times> string \<times> string \<times> string)" where
  "mandatoryFields node =
    (case findFirstElementByAttr node ''a'' ''class'' ''s-item__link'' of
       None \<Rightarrow> Inl ''ERROR::Item link node not found''
     | Some itemLink \<Rightarrow>
    (case getElementAttrByName itemLink ''href'' of
       (href, Some err) \<Rightarrow> Inl (''ERROR::'' @ err)
     | (href, None) \<Rightarrow>
    (case FindStringSubmatch itemIDRegEx href of
       None \<Rightarrow> Inl ''ERROR::Price value cannot be parsed\<newline>%!s(<nil>)''
     | Some matches \<Rightarrow>
    if length matches < 2 then Inl ''ERROR::Item ID cannot be parsed'' else
    let itemID = matches ! 1 in
    (case findFirstElementByAttr node ''span'' ''class'' ''s-item__price'' of
       None \<Rightarrow> Inl ''ERROR::Price node not found''
     | Some priceNode \<Rightarrow>
    (case getElementNodeVal priceNode of
       (price, Some err) \<Rightarrow> Inl (''ERROR::Price value not found\<newline>'' @ err)
     | (price, None) \<Rightarrow>
    (case FindStringSubmatch priceRegEx price of
       None \<Rightarrow> Inl ''ERROR::Price value cannot be parsed\<newline>%!s(<nil>)''
     | Some matches \<Rightarrow>
    let price = matches ! 0 in
    (case findFirstElementByAttr node ''div'' ''class'' ''s-item__title'' of
       None \<Rightarrow> Inl ''ERROR::Title DIV node not found''
     | Some titleDivNode \<Rightarrow>
    (case findFirstElementByAttr titleDivNode ''span'' ''role'' ''heading'' of
       None \<Rightarrow> Inl ''ERROR::Title SPAN node not found''
     | Some titleNode \<Rightarrow>
    (case getElementNodeVal titleNode of
       (title, Some err) \<Rightarrow> Inl (''ERROR::Title value not found\<newline>'' @ err)
     | (title, None) \<Rightarrow> Inr (itemID, href, price, title))))))))))"

text \<open>The write at the foot of \<^verbatim>\<open>processItemNode\<close> (lines 260-269).\<close>

definition writeItem :: "'fs env \<Rightarrow> string \<Rightarrow> ItemInfo \<Rightarrow> 'fs world \<Rightarrow> 'fs world" where
  "writeItem e itemID item w =
     w\<lparr>disk := snd (os_WriteFile e (''data/'' @ itemID @ ''.json'') item (disk w))\<rparr>"

section \<open>Example pages\<close>

definition attr :: "string \<Rightarrow> string \<Rightarrow> Attribute" where
  "attr k v = \<lparr>Namespace = '''', Key = k, Val = v\<rparr>"

definition element :: "string \<Rightarrow> Attribute list \<Rightarrow> Node list \<Rightarrow> Node" where
  "element tag as cs = Node ElementNode tag as cs"

definition textNode :: "string \<Rightarrow> Node" where
  "textNode s = Node TextNode s [] []"

text \<open>\<^verbatim>\<open><li class="" id="x"></li>\<close>\<close>

definition emptyClassItem :: Node where
  "emptyClassItem = element ''li'' [attr ''class'' '''', attr ''id'' ''x''] []"

text \<open>
  A list of three entries: one with class and id, one with no id, one of another class.
\<close>

definition threeEntries :: Node where
  "threeEntries =
     element ''ul'' []
       [element ''li'' [attr ''class'' ''s-item s-item__pl-on-bottom'', attr ''id'' ''item1'']
          [textNode ''one''],
        element ''li'' [attr ''class'' ''s-item''] [textNode ''two''],
        element ''li'' [attr ''id'' ''item3'', attr ''class'' ''srp-river-answer''] []]"

text \<open>
  A listing entry with a link, a price and a title, and whatever else is given. The
  variants: with a condition; with no subtitle container; with a subtitle container that
  has no \<^verbatim>\<open>SECONDARY_INFO\<close> span; with a link whose item number is not followed by a
  question mark; with no link at all; with a title container whose span has no role.
\<close>

definition listing :: "string \<Rightarrow> Node list \<Rightarrow> Node" where
  "listing href extra =
     element ''li'' [attr ''class'' ''s-item s-item__pl-on-bottom'', attr ''id'' ''item1'']
       ([element ''a'' [attr ''class'' ''s-item__link'', attr ''href'' href] [],
         element ''span'' [attr ''class'' ''s-item__price''] [textNode ''$1,234.56 to $1,500.00''],
         element ''div'' [attr ''class'' ''s-item__title'']
           [element ''span'' [attr ''role'' ''heading''] [textNode ''Dell Latitude'']]]
        @ extra)"

definition goodItem :: Node where
  "goodItem = listing ''/itm/123?hash=1''
     [element ''div'' [attr ''class'' ''s-item__subtitle'']
        [element ''span'' [attr ''class'' ''SECONDARY_INFO''] [textNode ''Pre-Owned'']]]"

definition noSubtitleItem :: Node where
  "noSubtitleItem = listing ''/itm/123?hash=1'' []"

definition emptySubtitleItem :: Node where
  "emptySubtitleItem = listing ''/itm/123?hash=1''
     [element ''div'' [attr ''class'' ''s-item__subtitle''] [textNode ''Brand New'']]"

definition noQueryItem :: Node where
  "noQueryItem = listing ''/itm/123'' []"

definition noLinkItem :: Node where
  "noLinkItem =
     element ''li'' [attr ''class'' ''s-item'', attr ''id'' ''item2'']
       [element ''span'' [attr ''class'' ''s-item__price''] [textNode ''$5.00'']]"

definition noHeadingItem :: Node where
  "noHeadingItem =
     element ''li'' [attr ''class'' ''s-item'', attr ''id'' ''item3'']
       [element ''a'' [attr ''class'' ''s-item__link'', attr ''href'' ''/itm/456?hash=3''] [],
        element ''span'' [attr ''class'' ''s-item__price''] [textNode ''$7.25''],
        element ''div'' [attr ''class'' ''s-item__title'']
          [element ''span'' [attr ''class'' ''BOLD''] [textNode ''Lenovo ThinkPad'']]]"

text \<open>
  A world for the examples. Its file system is the list of the files written; when it is
  read-only every call on it fails and changes nothing. Its web serves the given pages, each
  under its URL, and the HTTP client refuses any other URL.
\<close>

type_synonym files = "(string \<times> ItemInfo) list"

definition exampleEnv :: "bool \<Rightarrow> (string \<times> Node) list \<Rightarrow> files env" where
  "exampleEnv readOnly pages =
     \<lparr>http_NewRequest = (\<lambda>url. Inr url),
      http_Do = (\<lambda>req. case map_of pages req of
                   Some page \<Rightarrow> Inr req
                 | None \<Rightarrow> Inl ''unsupported protocol scheme''),
      io_ReadAll = (\<lambda>res. Inr res),
      html_Parse = (\<lambda>body. case map_of pages body of
                   Some page \<Rightarrow> Inr page
                 | None \<Rightarrow> Inl ''no document''),
      os_Mkdir = (\<lambda>name fs. if readOnly then (Some ''permission denied'', fs) else (None, fs)),
      os_WriteFile = (\<lambda>name item fs.
                   if readOnly then (Some ''permission denied'', fs)
                   else (None, fs @ [(name, item)]))\<rparr>"

definition emptyWorld :: "files world" where
  "emptyWorld = \<lparr>stdout = [], fetched = [], disk = []\<rparr>"

text \<open>The URL \<^verbatim>\<open>main\<close> starts from (line 28), and a page whose next-page anchor has no href.\<close>

definition startURL :: string where
  "startURL = ''https://www.ebay.com/sch/garlandcomputer/m.html''"

definition brokenNextPage :: Node where
  "brokenNextPage =
     Node DocumentNode '''' []
       [element ''html'' []
          [element ''ul'' [] [goodItem],
           element ''a'' [attr ''class'' ''pagination__next icon-link''] []]]"

text \<open>
  A page whose only entry has no id, so that the item search finds nothing; and a page with
  two entries, the first of which has no link, and no next-page anchor.
\<close>

definition emptyResultsPage :: Node where
  "emptyResultsPage =
     Node DocumentNode '''' []
       [element ''html'' []
          [element ''ul'' [] [element ''li'' [attr ''class'' ''s-item''] [textNode ''No results'']]]]"

definition mixedPage :: Node where
  "mixedPage =
     Node DocumentNode '''' []
       [element ''html'' [] [element ''ul'' [] [noLinkItem, goodItem]]]"

text \<open>
  A title container whose first span has the role \<^verbatim>\<open>subheading\<close> and whose second span
  has the role \<^verbatim>\<open>heading\<close>, and an entry with it; and an entry whose title container has
  the \<^verbatim>\<open>subheading\<close> span only.
\<close>

definition subheadingTitle :: Node where
  "subheadingTitle =
     element ''div'' [attr ''class'' ''s-item__title'']
       [element ''span'' [attr ''role'' ''subheading''] [textNode ''Sponsored''],
        element ''span'' [attr ''role'' ''heading''] [textNode ''HP EliteBook'']]"

definition subheadingItem :: Node where
  "subheadingItem =
     element ''li'' [attr ''class'' ''s-item'', attr ''id'' ''item4'']
       [element ''a'' [attr ''class'' ''s-item__link'', attr ''href'' ''/itm/789?hash=4''] [],
        element ''span'' [attr ''class'' ''s-item__price''] [textNode ''$9.99''],
        subheadingTitle]"

definition onlySubheadingItem :: Node where
  "onlySubheadingItem =
     element ''li'' [attr ''class'' ''s-item'', attr ''id'' ''item5'']
       [element ''a'' [attr ''class'' ''s-item__link'', attr ''href'' ''/itm/790?hash=5''] [],
        element ''span'' [attr ''class'' ''s-item__price''] [textNode ''$9.99''],
        element ''div'' [attr ''class'' ''s-item__title'']
          [element ''span'' [attr ''role'' ''subheading''] [textNode ''Sponsored'']]]"


lemmas example_defs = listing_def goodItem_def noSubtitleItem_def emptySubtitleItem_def
  noQueryItem_def noLinkItem_def noHeadingItem_def exampleEnv_def emptyWorld_def startURL_def brokenNextPage_def
  emptyResultsPage_def mixedPage_def
  element_def attr_def textNode_def

lemmas pipeline_defs = processItemNode_def getElementAttrByName_def getElementNodeVal_def
  FindStringSubmatch_def itemIDRegEx_def priceRegEx_def

lemma string_of_nat_1: "string_of_nat (Suc 0) = ''1''"
  by code_simp

lemma string_of_nat_2: "string_of_nat (Suc (Suc 0)) = ''2''"
  by code_simp

lemmas crawler_defs = loopBody_def getPageHTML_def fmt_Print_def string_of_nat_1 string_of_nat_2

section \<open>Properties of the tree matcher\<close>

lemma strings_Contains_iff: "strings_Contains s sub \<longleftrightarrow> (\<exists>p q. s = p @ sub @ q)"
proof (induction s)
  case Nil
  then show ?case by auto
next
  case (Cons c cs)
  have "sublist sub (c # cs) \<longleftrightarrow> prefix sub (c # cs) \<or> sublist sub cs"
    by (rule sublist_Cons_right)
  with Cons show ?case by (simp add: sublist_def)
qed

lemma strings_Contains_nonempty: "strings_Contains s sub \<Longrightarrow> sub \<noteq> [] \<Longrightarrow> s \<noteq> []"
  by (cases s) auto

lemma findItemElementsByClass_Some:
  "il = Some xs \<Longrightarrow>
   findItemElementsByClass n et cn il = Some (xs @ filter (appended et cn) (preorder n))"
  "il = Some xs \<Longrightarrow>
   findItemElementsByClass_children cs et cn il =
     Some (xs @ filter (appended et cn) (concat (map preorder cs)))"
  by (induction n et cn il and cs et cn il arbitrary: xs and xs
      rule: findItemElementsByClass_findItemElementsByClass_children.induct)
     (simp_all add: appended_def)

text \<open>
  With a non-empty class name, the two locals of the attribute loop work as flags: once
  set they stay non-empty, so the loop accepts exactly when both kinds of attribute occur.
\<close>

lemma classIdScan_iff:
  "cn \<noteq> [] \<Longrightarrow> \<not> (c \<noteq> [] \<and> i \<noteq> []) \<Longrightarrow>
   classIdScan cn as c i \<longleftrightarrow>
     (c \<noteq> [] \<or> list_ex (\<lambda>a. Key a = ''class'' \<and> strings_Contains (Val a) cn) as) \<and>
     (i \<noteq> [] \<or> list_ex (\<lambda>a. Key a = ''id'' \<and> Val a \<noteq> []) as)"
proof (induction as arbitrary: c i)
  case Nil
  then show ?case by auto
next
  case (Cons a as)
  then show ?case
    by (auto simp: Let_def dest: strings_Contains_nonempty)
qed

lemma appended_iff: "cn \<noteq> [] \<Longrightarrow> appended et cn n = hasClassAndId et cn n"
  by (simp add: appended_def hasClassAndId_def classIdScan_iff)

lemma find_append:
  "find P (xs @ ys) = (case find P xs of Some x \<Rightarrow> Some x | None \<Rightarrow> find P ys)"
  by (induction xs) auto

lemma findFirstElementByAttr_find:
  "parsedShape n \<Longrightarrow>
   findFirstElementByAttr n et an av = find (attrQualifies et an av) (preorder n)"
  "parsedShape_children cs \<Longrightarrow>
   findFirstElementByAttr_children cs et an av =
     find (attrQualifies et an av) (concat (map preorder cs))"
proof (induction n et an av and cs et an av
       rule: findFirstElementByAttr_findFirstElementByAttr_children.induct)
  case (1 t d as cs elementType attrName attrValue)
  then show ?case by (simp add: attrQualifies_def)
next
  case (2 elementType attrName attrValue)
  then show ?case by simp
next
  case (3 c cs elementType attrName attrValue)
  show ?case
  proof (cases "Type c = ElementNode")
    case True
    with 3 show ?thesis by (simp add: find_append split: option.splits)
  next
    case False
    with 3 have "Children c = []" by simp
    with False have "preorder c = [c]" "\<not> attrQualifies elementType attrName attrValue c"
      by (cases c; simp add: attrQualifies_def)+
    with 3 False show ?thesis by simp
  qed
qed

text \<open>Whatever the shape of the tree, what the search returns is a qualifying node of it.\<close>

lemma findFirstElementByAttr_sound:
  "findFirstElementByAttr n et an av = Some m \<Longrightarrow>
   m \<in> set (preorder n) \<and> attrQualifies et an av m"
  "findFirstElementByAttr_children cs et an av = Some m \<Longrightarrow>
   m \<in> set (concat (map preorder cs)) \<and> attrQualifies et an av m"
  by (induction n et an av and cs et an av
      rule: findFirstElementByAttr_findFirstElementByAttr_children.induct)
     (auto simp: attrQualifies_def split: if_splits option.splits)

lemma parsedShape_descendant:
  "parsedShape n \<Longrightarrow> m \<in> set (preorder n) \<Longrightarrow> parsedShape m"
  "parsedShape_children cs \<Longrightarrow> m \<in> set (concat (map preorder cs)) \<Longrightarrow> parsedShape m"
  by (induction n and cs rule: parsedShape_parsedShape_children.induct) auto

text \<open>
  C4, as stated: for every tree, tag and class substring, \<^verbatim>\<open>findAllByClass\<close> returns
  exactly the elements of the tag whose class attribute contains the substring and whose id
  attribute is non-empty. It fails for the empty substring: the entry
  \<^verbatim>\<open><li class="" id="x">\<close> has a class attribute that contains the empty string and a
  non-empty id, and it is not returned.
\<close>

theorem findAllByClass_empty_substring_counterexample:
  "hasClassAndId ''li'' '''' emptyClassItem \<and>
   findItemElementsByClass emptyClassItem ''li'' '''' (Some []) = Some []"
  by (simp add: hasClassAndId_def emptyClassItem_def element_def attr_def)

text \<open>
  C4, amended: for every markup tree, every tag and every non-empty class substring, the
  search that \<^verbatim>\<open>main\<close> starts from an empty collection returns a collection that is not
  nil and holds exactly the nodes of the tree, in document pre-order, that are elements of
  the tag, have a class attribute containing the substring and have a non-empty id
  attribute. In particular no returned node lacks the substring in its class.
\<close>

theorem findAllByClass_exact:
  assumes "classSubstring \<noteq> ''''"
  shows "findItemElementsByClass root tag classSubstring (Some []) =
           Some (filter (hasClassAndId tag classSubstring) (preorder root))"
proof -
  have "appended tag classSubstring = hasClassAndId tag classSubstring"
    using assms by (intro ext) (simp add: appended_iff)
  then show ?thesis
    by (simp add: findItemElementsByClass_Some(1))
qed

theorem findAllByClass_exact_witness:
  "''s-item'' \<noteq> '''' \<and>
   findItemElementsByClass threeEntries ''li'' ''s-item'' (Some []) =
     Some [element ''li'' [attr ''class'' ''s-item s-item__pl-on-bottom'', attr ''id'' ''item1'']
             [textNode ''one'']]"
  using findAllByClass_exact [of "''s-item''" threeEntries "''li''"]
  by (simp add: hasClassAndId_def threeEntries_def element_def attr_def textNode_def)

text \<open>
  C8: for every markup tree, \<^verbatim>\<open>findFirstByAttr\<close> returns the first node in depth-first
  pre-order (the root of the search included) that is an element of the tag with an
  attribute of the given name whose value contains the substring. A markup tree is what
  the parser builds, where only elements have children below the root. When no node of the
  tree qualifies the result is absent; the function is total, so there is no other outcome.
\<close>

theorem findFirstByAttr_first_in_preorder:
  "(parsedShape root \<longrightarrow>
      findFirstElementByAttr root tag attrName valueSubstring =
        find (attrQualifies tag attrName valueSubstring) (preorder root)) \<and>
   ((\<forall>n \<in> set (preorder root). \<not> attrQualifies tag attrName valueSubstring n) \<longrightarrow>
      findFirstElementByAttr root tag attrName valueSubstring = None)"
proof (intro conjI impI)
  assume "parsedShape root"
  then show "findFirstElementByAttr root tag attrName valueSubstring =
        find (attrQualifies tag attrName valueSubstring) (preorder root)"
    by (rule findFirstElementByAttr_find(1))
next
  assume none: "\<forall>n \<in> set (preorder root). \<not> attrQualifies tag attrName valueSubstring n"
  show "findFirstElementByAttr root tag attrName valueSubstring = None"
  proof (cases "findFirstElementByAttr root tag attrName valueSubstring")
    case None
    then show ?thesis .
  next
    case (Some m)
    from findFirstElementByAttr_sound(1) [OF Some] none show ?thesis by blast
  qed
qed

theorem findFirstByAttr_first_in_preorder_witness:
  "parsedShape threeEntries \<and>
   findFirstElementByAttr threeEntries ''li'' ''class'' ''s-item'' =
     Some (element ''li'' [attr ''class'' ''s-item s-item__pl-on-bottom'', attr ''id'' ''item1'']
             [textNode ''one'']) \<and>
   findFirstElementByAttr threeEntries ''li'' ''class'' ''pagination__next'' = None"
proof -
  have shape: "parsedShape threeEntries"
    by (simp add: threeEntries_def element_def textNode_def)
  have none: "\<forall>n \<in> set (preorder threeEntries).
                \<not> attrQualifies ''li'' ''class'' ''pagination__next'' n"
    by (simp add: threeEntries_def element_def textNode_def attr_def attrQualifies_def)
  have first: "find (attrQualifies ''li'' ''class'' ''s-item'') (preorder threeEntries) =
     Some (element ''li'' [attr ''class'' ''s-item s-item__pl-on-bottom'', attr ''id'' ''item1'']
             [textNode ''one''])"
    by (simp add: threeEntries_def element_def textNode_def attr_def attrQualifies_def)
  from findFirstByAttr_first_in_preorder [of threeEntries "''li''" "''class''" "''s-item''"]
    shape first
  have a: "findFirstElementByAttr threeEntries ''li'' ''class'' ''s-item'' =
     Some (element ''li'' [attr ''class'' ''s-item s-item__pl-on-bottom'', attr ''id'' ''item1'']
             [textNode ''one''])"
    by simp
  from findFirstByAttr_first_in_preorder
         [of threeEntries "''li''" "''class''" "''pagination__next''"] none
  have b: "findFirstElementByAttr threeEntries ''li'' ''class'' ''pagination__next'' = None"
    by blast
  from shape a b show ?thesis by blast
qed

section \<open>Properties of the two patterns\<close>

lemma atom_ok_Digit: "atom_ok Digit = digit"
  by (rule ext) (simp add: digit_def)

lemma atom_ok_OneOf: "atom_ok (OneOf ''.,'') = separator"
  by (rule ext) (simp add: separator_def)

lemma star_greedy: "k (dropWhile p s) \<noteq> None \<Longrightarrow> star p s k = k (dropWhile p s)"
  by (induction s) (auto split: option.splits)

lemma star_blocked: "(\<And>c t. p c \<Longrightarrow> k (c # t) = None) \<Longrightarrow> star p s k = k (dropWhile p s)"
  by (induction s) (auto split: option.splits)

lemma take_prefix_by_length: "ys @ rest = xs \<Longrightarrow> take (length xs - length rest) xs = ys"
  by auto

lemma rmatch_priceRegEx:
  "rmatch priceRegEx s cp (\<lambda>s' cp'. Some (s', cp')) =
     (case s of [] \<Rightarrow> None
      | c # t \<Rightarrow> if digit c
                 then Some (dropWhile digit (dropWhile separator (dropWhile digit t)), cp)
                 else None)"
  by (simp add: priceRegEx_def atom_ok_Digit atom_ok_OneOf star_greedy split: list.splits)

lemma leftmost_priceRegEx:
  "leftmost priceRegEx s =
     (if list_ex digit s then Some (firstPriceToken s, Map.empty) else None)"
proof (induction s)
  case Nil
  then show ?case by (simp add: rmatch_priceRegEx)
next
  case (Cons c t)
  show ?case
  proof (cases "digit c")
    case True
    let ?rest = "dropWhile digit (dropWhile separator (dropWhile digit t))"
    have "firstPriceToken (c # t) @ ?rest = c # t"
      using True by (simp add: firstPriceToken_def Let_def)
    then have "take (length (c # t) - length ?rest) (c # t) = firstPriceToken (c # t)"
      by (rule take_prefix_by_length)
    with True show ?thesis
      by (simp add: rmatch_priceRegEx del: take_Cons')
  next
    case False
    with Cons show ?thesis
      by (simp add: rmatch_priceRegEx firstPriceToken_def)
  qed
qed

lemma FindStringSubmatch_priceRegEx:
  "FindStringSubmatch priceRegEx s =
     (if list_ex digit s then Some [firstPriceToken s] else None)"
  by (simp add: FindStringSubmatch_def leftmost_priceRegEx) (simp add: priceRegEx_def)

lemma itemIDRegEx_unfold:
  "itemIDRegEx =
     Seq (Atom (Lit CHR ''i'')) (Seq (Atom (Lit CHR ''t'')) (Seq (Atom (Lit CHR ''m''))
       (Seq (Atom (Lit CHR ''/'')) digitsThenQuestionMark)))"
  by (simp add: itemIDRegEx_def digitsThenQuestionMark_def)

lemma take_until_dropWhile:
  assumes "dropWhile p u = q # x"
  shows "take (length u - length x) (c # u) = c # takeWhile p u"
proof -
  have "takeWhile p u @ dropWhile p u = u" by simp
  with assms have u: "takeWhile p u @ q # x = u" by simp
  then have "length u = length (takeWhile p u) + Suc (length x)"
    by (metis length_append length_Cons)
  then have "length u - length x = Suc (length (takeWhile p u))" by simp
  moreover have "take (length (takeWhile p u)) u = takeWhile p u"
    by (rule takeWhile_eq_take [symmetric])
  ultimately show ?thesis by simp
qed

lemma rmatch_digitsThenQuestionMark:
  assumes "digit c"
  shows "rmatch digitsThenQuestionMark (c # u) cp (\<lambda>s' cp'. Some (s', cp')) =
         (case dropWhile digit u of
            [] \<Rightarrow> None
          | q # rest \<Rightarrow> if q = CHR ''?'' then Some (rest, cp(1 \<mapsto> c # takeWhile digit u))
                        else None)"
proof -
  have "rmatch digitsThenQuestionMark (c # u) cp (\<lambda>s' cp'. Some (s', cp')) =
        star digit u (\<lambda>s'. case s' of [] \<Rightarrow> None
           | q # rest \<Rightarrow> if atom_ok (Lit CHR ''?'') q
                         then Some (rest, cp(Suc 0 \<mapsto> take (Suc (length u) - length s') (c # u)))
                         else None)"
    using assms by (simp add: digitsThenQuestionMark_def atom_ok_Digit del: take_Cons')
  also have "\<dots> = (case dropWhile digit u of [] \<Rightarrow> None
           | q # rest \<Rightarrow> if atom_ok (Lit CHR ''?'') q
                         then Some (rest, cp(Suc 0 \<mapsto> take (Suc (length u) - length (dropWhile digit u)) (c # u)))
                         else None)"
    by (subst star_blocked) (auto simp: digit_def)
  also have "\<dots> = (case dropWhile digit u of
            [] \<Rightarrow> None
          | q # rest \<Rightarrow> if q = CHR ''?'' then Some (rest, cp(1 \<mapsto> c # takeWhile digit u))
                        else None)"
    by (cases "dropWhile digit u") (simp_all add: take_until_dropWhile del: take_Cons' dropWhile_eq_Nil_conv)
  finally show ?thesis .
qed

lemma rmatch_itemIDRegEx_sound:
  assumes "rmatch itemIDRegEx s cp (\<lambda>s' cp'. Some (s', cp')) = Some (rest, cp')"
  shows "\<exists>ds. ds \<noteq> [] \<and> list_all digit ds \<and> s = ''itm/'' @ ds @ ''?'' @ rest \<and> cp' = cp(1 \<mapsto> ds)"
proof -
  from assms obtain v where s: "s = ''itm/'' @ v"
    and m0: "rmatch digitsThenQuestionMark v cp (\<lambda>s' cp'. Some (s', cp')) = Some (rest, cp')"
    by (auto simp: itemIDRegEx_unfold split: list.splits if_splits)
  from m0 obtain c u where v: "v = c # u" and c: "digit c"
    by (cases v) (auto simp: digitsThenQuestionMark_def atom_ok_Digit split: if_splits)
  from m0 c have d: "dropWhile digit u = CHR ''?'' # rest" and cp': "cp' = cp(1 \<mapsto> c # takeWhile digit u)"
    by (auto simp: v rmatch_digitsThenQuestionMark split: list.splits if_splits)
  have "u = takeWhile digit u @ dropWhile digit u" by simp
  with d have u: "u = takeWhile digit u @ CHR ''?'' # rest" by simp
  have "list_all digit (c # takeWhile digit u)"
    using c by (auto simp: list_all_iff dest: set_takeWhileD)
  with s v u cp' show ?thesis
    by (intro exI [of _ "c # takeWhile digit u"]) auto
qed

lemma rmatch_itemIDRegEx_complete:
  assumes "ds \<noteq> []" "list_all digit ds"
  shows "rmatch itemIDRegEx (''itm/'' @ ds @ ''?'' @ rest) cp (\<lambda>s' cp'. Some (s', cp'))
         = Some (rest, cp(1 \<mapsto> ds))"
proof -
  from assms obtain c u where ds: "ds = c # u" "digit c" "list_all digit u"
    by (cases ds) auto
  have "\<not> digit CHR ''?''" by (simp add: digit_def)
  with ds(3) have "dropWhile digit (u @ CHR ''?'' # rest) = CHR ''?'' # rest"
    and "takeWhile digit (u @ CHR ''?'' # rest) = u"
    by (simp_all add: list_all_iff dropWhile_append3 takeWhile_tail)
  with ds(1,2) show ?thesis
    by (simp add: itemIDRegEx_unfold rmatch_digitsThenQuestionMark)
qed

lemma leftmost_itemIDRegEx_sound:
  "leftmost itemIDRegEx s = Some (m, cp) \<Longrightarrow>
   \<exists>p ds q. ds \<noteq> [] \<and> list_all digit ds \<and> s = p @ ''itm/'' @ ds @ ''?'' @ q \<and>
            m = ''itm/'' @ ds @ ''?'' \<and> cp = Map.empty(1 \<mapsto> ds)"
proof (induction s)
  case Nil
  then show ?case by (simp add: itemIDRegEx_def)
next
  case (Cons c t)
  show ?case
  proof (cases "rmatch itemIDRegEx (c # t) Map.empty (\<lambda>s' cp'. Some (s', cp'))")
    case None
    with Cons.prems have "leftmost itemIDRegEx t = Some (m, cp)" by simp
    from Cons.IH [OF this] obtain p ds q where
      "ds \<noteq> []" "list_all digit ds" "t = p @ ''itm/'' @ ds @ ''?'' @ q"
      "m = ''itm/'' @ ds @ ''?''" "cp = Map.empty(1 \<mapsto> ds)" by blast
    then show ?thesis
      by (intro exI [of _ "c # p"] exI [of _ ds] exI [of _ q]) simp
  next
    case (Some a)
    obtain rest cp' where a: "a = (rest, cp')" by (cases a)
    from rmatch_itemIDRegEx_sound [OF Some [unfolded a]] obtain ds where
      ds: "ds \<noteq> []" "list_all digit ds" "c # t = ''itm/'' @ ds @ ''?'' @ rest"
          "cp' = Map.empty(1 \<mapsto> ds)" by blast
    have "take (length (c # t) - length rest) (c # t) = ''itm/'' @ ds @ ''?''"
      by (rule take_prefix_by_length) (simp add: ds(3))
    with Cons.prems Some a have "m = ''itm/'' @ ds @ ''?''" "cp = cp'"
      by (simp_all del: take_Cons')
    with ds show ?thesis
      by (intro exI [of _ "[]"] exI [of _ ds] exI [of _ rest]) simp
  qed
qed

lemma leftmost_itemIDRegEx_complete:
  assumes "ds \<noteq> []" "list_all digit ds"
  shows "leftmost itemIDRegEx (p @ ''itm/'' @ ds @ ''?'' @ q) \<noteq> None"
proof (induction p)
  case Nil
  from rmatch_itemIDRegEx_complete [OF assms, of q Map.empty]
  show ?case by (simp del: rmatch.simps)
next
  case (Cons c p)
  then show ?case by (simp split: option.splits del: rmatch.simps)
qed

lemma FindStringSubmatch_itemIDRegEx_Some:
  "FindStringSubmatch itemIDRegEx s = Some ms \<Longrightarrow>
   \<exists>p ds q. ds \<noteq> [] \<and> list_all digit ds \<and> s = p @ ''itm/'' @ ds @ ''?'' @ q \<and>
            ms = [''itm/'' @ ds @ ''?'', ds]"
proof -
  assume a: "FindStringSubmatch itemIDRegEx s = Some ms"
  then obtain m cp where l: "leftmost itemIDRegEx s = Some (m, cp)"
    and ms: "ms = m # map (\<lambda>i. case cp i of None \<Rightarrow> [] | Some g \<Rightarrow> g) [1 ..< Suc (numSubexp itemIDRegEx)]"
    by (auto simp: FindStringSubmatch_def split: option.splits)
  have n: "numSubexp itemIDRegEx = 1" by (simp add: itemIDRegEx_def)
  from leftmost_itemIDRegEx_sound [OF l] obtain p ds q where
    ds: "ds \<noteq> []" "list_all digit ds" "s = p @ ''itm/'' @ ds @ ''?'' @ q"
        "m = ''itm/'' @ ds @ ''?''" "cp = Map.empty(1 \<mapsto> ds)" by blast
  from ms n ds(5) have "ms = [m, ds]" by simp
  with ds show ?thesis by blast
qed

lemma FindStringSubmatch_itemIDRegEx_None:
  "FindStringSubmatch itemIDRegEx s = None \<longleftrightarrow>
   \<not> (\<exists>p ds q. ds \<noteq> [] \<and> list_all digit ds \<and> s = p @ ''itm/'' @ ds @ ''?'' @ q)"
proof
  assume "FindStringSubmatch itemIDRegEx s = None"
  then have "leftmost itemIDRegEx s = None"
    by (auto simp: FindStringSubmatch_def split: option.splits)
  then show "\<not> (\<exists>p ds q. ds \<noteq> [] \<and> list_all digit ds \<and> s = p @ ''itm/'' @ ds @ ''?'' @ q)"
    using leftmost_itemIDRegEx_complete by blast
next
  assume "\<not> (\<exists>p ds q. ds \<noteq> [] \<and> list_all digit ds \<and> s = p @ ''itm/'' @ ds @ ''?'' @ q)"
  then show "FindStringSubmatch itemIDRegEx s = None"
    using FindStringSubmatch_itemIDRegEx_Some [of s] by (cases "FindStringSubmatch itemIDRegEx s") auto
qed

section \<open>Properties of the item pipeline\<close>

lemma processItemNode_factor:
  "processItemNode e node w =
    (case mandatoryFields node of
       Inl err \<Rightarrow> (Some err, w)
     | Inr (itemID, href, price, title) \<Rightarrow>
    (case findFirstElementByAttr node ''div'' ''class'' ''s-item__subtitle'' of
       None \<Rightarrow>
         (None, writeItem e itemID
                  \<lparr>Title = title, Condition = '''', Price = price, ProductURL = href\<rparr>
                  (fmt_Print (''WARNING::Condition DIV node not found '' @ itemID @ ''\<newline>'') w))
     | Some subtitleNode \<Rightarrow>
    (case findFirstElementByAttr subtitleNode ''span'' ''class'' ''SECONDARY_INFO'' of
       None \<Rightarrow> (Some ''ERROR::Condition SPAN node not found'', w)
     | Some conditionNode \<Rightarrow>
    (case getElementNodeVal conditionNode of
       (condition, Some err) \<Rightarrow> (Some (''ERROR::Condition value not found\<newline>'' @ err), w)
     | (condition, None) \<Rightarrow>
         (None, writeItem e itemID
                  \<lparr>Title = title, Condition = condition, Price = price, ProductURL = href\<rparr> w)))))"
  unfolding processItemNode_def mandatoryFields_def writeItem_def Let_def
  by (auto split: option.splits prod.splits)

text \<open>What a successful extraction of the mandatory fields went through.\<close>

lemma mandatoryFields_Inr:
  assumes "mandatoryFields node = Inr (itemID, href, price, title)"
  shows "\<exists>itemLink ms priceNode ptext pms titleDivNode titleNode.
     findFirstElementByAttr node ''a'' ''class'' ''s-item__link'' = Some itemLink \<and>
     getElementAttrByName itemLink ''href'' = (href, None) \<and>
     FindStringSubmatch itemIDRegEx href = Some ms \<and> itemID = ms ! 1 \<and>
     findFirstElementByAttr node ''span'' ''class'' ''s-item__price'' = Some priceNode \<and>
     getElementNodeVal priceNode = (ptext, None) \<and>
     FindStringSubmatch priceRegEx ptext = Some pms \<and> price = pms ! 0 \<and>
     findFirstElementByAttr node ''div'' ''class'' ''s-item__title'' = Some titleDivNode \<and>
     findFirstElementByAttr titleDivNode ''span'' ''role'' ''heading'' = Some titleNode \<and>
     getElementNodeVal titleNode = (title, None)"
  using assms unfolding mandatoryFields_def Let_def
  by (auto split: option.splits prod.splits if_splits)

lemma mandatoryFields_id:
  assumes "parsedShape node" "mandatoryFields node = Inr (itemID, href, price, title)"
  shows "\<exists>a p q.
     find (attrQualifies ''a'' ''class'' ''s-item__link'') (preorder node) = Some a \<and>
     getElementAttrByName a ''href'' = (href, None) \<and>
     href = p @ ''itm/'' @ itemID @ ''?'' @ q \<and> itemID \<noteq> [] \<and> list_all digit itemID"
proof -
  from mandatoryFields_Inr [OF assms(2)] obtain itemLink ms where
    link: "findFirstElementByAttr node ''a'' ''class'' ''s-item__link'' = Some itemLink"
    and href: "getElementAttrByName itemLink ''href'' = (href, None)"
    and ms: "FindStringSubmatch itemIDRegEx href = Some ms" "itemID = ms ! 1"
    by blast
  from FindStringSubmatch_itemIDRegEx_Some [OF ms(1)] obtain p ds q where
    ds: "ds \<noteq> []" "list_all digit ds" "href = p @ ''itm/'' @ ds @ ''?'' @ q"
        "ms = [''itm/'' @ ds @ ''?'', ds]"
    by blast
  from ms(2) ds(4) have "itemID = ds" by simp
  moreover from link assms(1)
  have "find (attrQualifies ''a'' ''class'' ''s-item__link'') (preorder node) = Some itemLink"
    by (simp add: findFirstElementByAttr_find(1))
  ultimately show ?thesis using href ds by blast
qed

lemma mandatoryFields_price:
  assumes "parsedShape node" "mandatoryFields node = Inr (itemID, href, price, title)"
  shows "\<exists>priceNode ptext.
     find (attrQualifies ''span'' ''class'' ''s-item__price'') (preorder node) = Some priceNode \<and>
     getElementNodeVal priceNode = (ptext, None) \<and>
     list_ex digit ptext \<and> price = firstPriceToken ptext"
proof -
  from mandatoryFields_Inr [OF assms(2)] obtain priceNode ptext pms where
    node: "findFirstElementByAttr node ''span'' ''class'' ''s-item__price'' = Some priceNode"
    and direct: "getElementNodeVal priceNode = (ptext, None)"
    and pms: "FindStringSubmatch priceRegEx ptext = Some pms" "price = pms ! 0"
    by blast
  from pms have "list_ex digit ptext" "price = firstPriceToken ptext"
    by (auto simp: FindStringSubmatch_priceRegEx split: if_splits)
  moreover from node assms(1)
  have "find (attrQualifies ''span'' ''class'' ''s-item__price'') (preorder node) = Some priceNode"
    by (simp add: findFirstElementByAttr_find(1))
  ultimately show ?thesis using direct by blast
qed

lemma mandatoryFields_title:
  assumes "parsedShape node" "mandatoryFields node = Inr (itemID, href, price, title)"
  shows "\<exists>titleDivNode titleNode textChild.
     find (attrQualifies ''div'' ''class'' ''s-item__title'') (preorder node) = Some titleDivNode \<and>
     find (attrQualifies ''span'' ''role'' ''heading'') (preorder titleDivNode) = Some titleNode \<and>
     find (\<lambda>c. Type c = TextNode) (Children titleNode) = Some textChild \<and>
     title = Data textChild"
proof -
  from mandatoryFields_Inr [OF assms(2)] obtain titleDivNode titleNode where
    d: "findFirstElementByAttr node ''div'' ''class'' ''s-item__title'' = Some titleDivNode"
    and s: "findFirstElementByAttr titleDivNode ''span'' ''role'' ''heading'' = Some titleNode"
    and t: "getElementNodeVal titleNode = (title, None)"
    by blast
  from findFirstElementByAttr_sound(1) [OF d] assms(1) have "parsedShape titleDivNode"
    by (blast intro: parsedShape_descendant(1))
  with s have "find (attrQualifies ''span'' ''role'' ''heading'') (preorder titleDivNode) =
      Some titleNode"
    by (simp add: findFirstElementByAttr_find(1))
  moreover from d assms(1)
  have "find (attrQualifies ''div'' ''class'' ''s-item__title'') (preorder node) =
      Some titleDivNode"
    by (simp add: findFirstElementByAttr_find(1))
  moreover from t obtain textChild where
    "find (\<lambda>c. Type c = TextNode) (Children titleNode) = Some textChild" "title = Data textChild"
    by (auto simp: getElementNodeVal_def split: option.splits)
  ultimately show ?thesis by blast
qed

text \<open>
  The two ways \<^verbatim>\<open>processItemNode\<close> ends: with an error and the world as it was, or with
  nil and one call of \<^verbatim>\<open>os.WriteFile\<close> for the item built from the mandatory fields.
\<close>

lemma processItemNode_error:
  "processItemNode e node w = (Some err, w') \<Longrightarrow> w' = w"
  by (auto simp: processItemNode_factor split: sum.splits prod.splits option.splits)

lemma processItemNode_nil:
  assumes "processItemNode e node w = (None, w')"
  shows "\<exists>itemID href price title condition.
     mandatoryFields node = Inr (itemID, href, price, title) \<and>
     disk w' = snd (os_WriteFile e (''data/'' @ itemID @ ''.json'')
                 \<lparr>Title = title, Condition = condition, Price = price, ProductURL = href\<rparr>
                 (disk w))"
  using assms
  by (auto simp: processItemNode_factor writeItem_def fmt_Print_def
           split: sum.splits prod.splits option.splits)

lemma mandatoryFields_Inl:
  "mandatoryFields node = Inl err \<Longrightarrow> processItemNode e node w = (Some err, w)"
  by (simp add: processItemNode_factor)

lemma mandatoryFields_cases:
  obtains (failed) err where "mandatoryFields node = Inl err"
  | (extracted) itemID href price title
    where "mandatoryFields node = Inr (itemID, href, price, title)"
  by (cases "mandatoryFields node") auto

text \<open>
  C3, as stated: the id is the numeric segment matching the pattern \<^verbatim>\<open>itm/([0-9]+)?\<close>, and
  the item fails only if no such segment can be extracted. The entry below links to
  \<^verbatim>\<open>/itm/123\<close>: the pattern as stated matches there and its group is \<^verbatim>\<open>123\<close>, yet
  \<^verbatim>\<open>processItemNode\<close> fails, since its pattern ends in an escaped, literal question mark.
\<close>

theorem itemID_pattern_counterexample:
  "findFirstElementByAttr noQueryItem ''a'' ''class'' ''s-item__link'' =
     Some (element ''a'' [attr ''class'' ''s-item__link'', attr ''href'' ''/itm/123''] []) \<and>
   FindStringSubmatch specItemIDPattern ''/itm/123'' = Some [''itm/123'', ''123''] \<and>
   FindStringSubmatch itemIDRegEx ''/itm/123'' = None \<and>
   processItemNode (exampleEnv False []) noQueryItem emptyWorld =
     (Some ''ERROR::Price value cannot be parsed\<newline>%!s(<nil>)'', emptyWorld)"
  by (simp add: pipeline_defs example_defs specItemIDPattern_def)

text \<open>
  C3, amended: for every item node, the id is obtained from the href attribute of the first
  \<^verbatim>\<open><a>\<close> whose class contains \<^verbatim>\<open>s-item__link\<close>, as the group of the pattern
  \<^verbatim>\<open>itm\/([0-9]+)\?\<close>: a non-empty run of digits that follows \<^verbatim>\<open>itm/\<close> and is followed by a
  literal question mark. The id names the file written and the href is the product URL. If
  there is no such anchor, or it has no href, or the href has no such segment, the extraction
  of that item fails with the world unchanged. The pattern fails on exactly the strings that
  have no segment of that form.
\<close>

theorem itemID_from_link_href:
  assumes "parsedShape node"
  shows "(processItemNode e node w = (None, w') \<longrightarrow>
            (\<exists>a href itemID p q item.
               find (attrQualifies ''a'' ''class'' ''s-item__link'') (preorder node) = Some a \<and>
               getElementAttrByName a ''href'' = (href, None) \<and>
               href = p @ ''itm/'' @ itemID @ ''?'' @ q \<and> itemID \<noteq> [] \<and>
               list_all digit itemID \<and> ProductURL item = href \<and>
               disk w' = snd (os_WriteFile e (''data/'' @ itemID @ ''.json'') item (disk w)))) \<and>
         ((\<forall>a href.
              find (attrQualifies ''a'' ''class'' ''s-item__link'') (preorder node) = Some a \<longrightarrow>
              getElementAttrByName a ''href'' = (href, None) \<longrightarrow>
              FindStringSubmatch itemIDRegEx href = None) \<longrightarrow>
            (\<exists>err. processItemNode e node w = (Some err, w))) \<and>
         (\<forall>href. FindStringSubmatch itemIDRegEx href = None \<longleftrightarrow>
            \<not> (\<exists>p ds q. ds \<noteq> [] \<and> list_all digit ds \<and> href = p @ ''itm/'' @ ds @ ''?'' @ q))"
proof (intro conjI impI allI)
  assume "processItemNode e node w = (None, w')"
  from processItemNode_nil [OF this] obtain itemID href price title condition where
    m: "mandatoryFields node = Inr (itemID, href, price, title)"
    and d: "disk w' = snd (os_WriteFile e (''data/'' @ itemID @ ''.json'')
                 \<lparr>Title = title, Condition = condition, Price = price, ProductURL = href\<rparr>
                 (disk w))"
    by blast
  from mandatoryFields_id [OF assms m] obtain a p q where
    "find (attrQualifies ''a'' ''class'' ''s-item__link'') (preorder node) = Some a"
    "getElementAttrByName a ''href'' = (href, None)"
    "href = p @ ''itm/'' @ itemID @ ''?'' @ q" "itemID \<noteq> []" "list_all digit itemID"
    by blast
  with d show "\<exists>a href itemID p q item.
               find (attrQualifies ''a'' ''class'' ''s-item__link'') (preorder node) = Some a \<and>
               getElementAttrByName a ''href'' = (href, None) \<and>
               href = p @ ''itm/'' @ itemID @ ''?'' @ q \<and> itemID \<noteq> [] \<and>
               list_all digit itemID \<and> ProductURL item = href \<and>
               disk w' = snd (os_WriteFile e (''data/'' @ itemID @ ''.json'') item (disk w))"
    by (intro exI [of _ a] exI [of _ href] exI [of _ itemID] exI [of _ p] exI [of _ q]
          exI [of _ "\<lparr>Title = title, Condition = condition, Price = price, ProductURL = href\<rparr>"])
       simp
next
  assume none: "\<forall>a href.
              find (attrQualifies ''a'' ''class'' ''s-item__link'') (preorder node) = Some a \<longrightarrow>
              getElementAttrByName a ''href'' = (href, None) \<longrightarrow>
              FindStringSubmatch itemIDRegEx href = None"
  show "\<exists>err. processItemNode e node w = (Some err, w)"
  proof (cases node rule: mandatoryFields_cases)
    case (failed err)
    then show ?thesis by (blast intro: mandatoryFields_Inl)
  next
    case (extracted itemID href price title)
    from mandatoryFields_Inr [OF extracted] obtain itemLink ms where
      l: "findFirstElementByAttr node ''a'' ''class'' ''s-item__link'' = Some itemLink"
      and h: "getElementAttrByName itemLink ''href'' = (href, None)"
      and ms: "FindStringSubmatch itemIDRegEx href = Some ms"
      by blast
    from l assms
    have "find (attrQualifies ''a'' ''class'' ''s-item__link'') (preorder node) = Some itemLink"
      by (simp add: findFirstElementByAttr_find(1))
    with none h have "FindStringSubmatch itemIDRegEx href = None" by blast
    with ms show ?thesis by simp
  qed
next
  fix href
  show "FindStringSubmatch itemIDRegEx href = None \<longleftrightarrow>
        \<not> (\<exists>p ds q. ds \<noteq> [] \<and> list_all digit ds \<and> href = p @ ''itm/'' @ ds @ ''?'' @ q)"
    by (rule FindStringSubmatch_itemIDRegEx_None)
qed

theorem itemID_from_link_href_witness:
  "parsedShape goodItem \<and>
   processItemNode (exampleEnv False []) goodItem emptyWorld =
     (None, emptyWorld\<lparr>disk := [(''data/123.json'',
        \<lparr>Title = ''Dell Latitude'', Condition = ''Pre-Owned'', Price = ''1,234'',
           ProductURL = ''/itm/123?hash=1''\<rparr>)]\<rparr>) \<and>
   (\<exists>a href itemID p q item.
      find (attrQualifies ''a'' ''class'' ''s-item__link'') (preorder goodItem) = Some a \<and>
      getElementAttrByName a ''href'' = (href, None) \<and>
      href = p @ ''itm/'' @ itemID @ ''?'' @ q \<and> itemID \<noteq> [] \<and>
      list_all digit itemID \<and> ProductURL item = href \<and>
      [(''data/123.json'',
        \<lparr>Title = ''Dell Latitude'', Condition = ''Pre-Owned'', Price = ''1,234'',
           ProductURL = ''/itm/123?hash=1''\<rparr>)] =
        snd (os_WriteFile (exampleEnv False []) (''data/'' @ itemID @ ''.json'') item [])) \<and>
   parsedShape noQueryItem \<and>
   (\<exists>err. processItemNode (exampleEnv False []) noQueryItem emptyWorld = (Some err, emptyWorld))"
proof -
  let ?e = "exampleEnv False [] :: files env"
  let ?w = "emptyWorld\<lparr>disk := [(''data/123.json'',
        \<lparr>Title = ''Dell Latitude'', Condition = ''Pre-Owned'', Price = ''1,234'',
           ProductURL = ''/itm/123?hash=1''\<rparr>)]\<rparr>"
  have shape: "parsedShape goodItem"
    by (simp add: example_defs)
  have run: "processItemNode ?e goodItem emptyWorld = (None, ?w)"
    by (simp add: pipeline_defs example_defs)
  from itemID_from_link_href [OF shape, of ?e emptyWorld ?w] run
  have found: "\<exists>a href itemID p q item.
      find (attrQualifies ''a'' ''class'' ''s-item__link'') (preorder goodItem) = Some a \<and>
      getElementAttrByName a ''href'' = (href, None) \<and>
      href = p @ ''itm/'' @ itemID @ ''?'' @ q \<and> itemID \<noteq> [] \<and>
      list_all digit itemID \<and> ProductURL item = href \<and>
      disk ?w = snd (os_WriteFile ?e (''data/'' @ itemID @ ''.json'') item (disk emptyWorld))"
    by blast
  have shape': "parsedShape noQueryItem"
    by (simp add: example_defs)
  have none: "\<forall>a href.
      find (attrQualifies ''a'' ''class'' ''s-item__link'') (preorder noQueryItem) = Some a \<longrightarrow>
      getElementAttrByName a ''href'' = (href, None) \<longrightarrow>
      FindStringSubmatch itemIDRegEx href = None"
    by (auto simp: pipeline_defs example_defs attrQualifies_def)
  from itemID_from_link_href [OF shape', of ?e emptyWorld] none
  have failed: "\<exists>err. processItemNode ?e noQueryItem emptyWorld = (Some err, emptyWorld)"
    by blast
  from found have found': "\<exists>a href itemID p q item.
      find (attrQualifies ''a'' ''class'' ''s-item__link'') (preorder goodItem) = Some a \<and>
      getElementAttrByName a ''href'' = (href, None) \<and>
      href = p @ ''itm/'' @ itemID @ ''?'' @ q \<and> itemID \<noteq> [] \<and>
      list_all digit itemID \<and> ProductURL item = href \<and>
      [(''data/123.json'',
        \<lparr>Title = ''Dell Latitude'', Condition = ''Pre-Owned'', Price = ''1,234'',
           ProductURL = ''/itm/123?hash=1''\<rparr>)] =
        snd (os_WriteFile ?e (''data/'' @ itemID @ ''.json'') item [])"
    by (simp add: emptyWorld_def)
  from shape run found' shape' failed show ?thesis by blast
qed

text \<open>
  C2, as stated: the price \<^verbatim>\<open>$1,234.56 to $1,500.00\<close> normalizes to \<^verbatim>\<open>1,234.56\<close>. The
  pattern \<^verbatim>\<open>\d+[\.,]*\d*\<close> has one run of separators only, so its first match on that
  text ends before the dot: the price written for the entry is \<^verbatim>\<open>1,234\<close>.
\<close>

theorem price_example_counterexample:
  "getElementNodeVal
     (element ''span'' [attr ''class'' ''s-item__price''] [textNode ''$1,234.56 to $1,500.00'']) =
     (''$1,234.56 to $1,500.00'', None) \<and>
   FindStringSubmatch priceRegEx ''$1,234.56 to $1,500.00'' = Some [''1,234''] \<and>
   ''1,234'' \<noteq> ''1,234.56'' \<and>
   disk (snd (processItemNode (exampleEnv False []) goodItem emptyWorld)) =
     [(''data/123.json'',
       \<lparr>Title = ''Dell Latitude'', Condition = ''Pre-Owned'', Price = ''1,234'',
          ProductURL = ''/itm/123?hash=1''\<rparr>)]"
  by (simp add: pipeline_defs example_defs)

text \<open>
  C2, amended: price normalization extracts the first token matching the pattern
  \<^verbatim>\<open>\d+[.,]*\d*\<close> from the direct text of the first \<^verbatim>\<open><span>\<close> whose class contains
  \<^verbatim>\<open>s-item__price\<close>: from the first digit of the text on, a run of digits, a run of dots
  and commas, and a run of digits. A text with no digit has no match. In particular, for the
  input \<^verbatim>\<open>$1,234.56 to $1,500.00\<close> the normalized price equals \<^verbatim>\<open>1,234\<close>.
\<close>

theorem price_is_first_numeric_token:
  assumes "parsedShape node"
  shows "(processItemNode e node w = (None, w') \<longrightarrow>
            (\<exists>priceNode ptext itemID item.
               find (attrQualifies ''span'' ''class'' ''s-item__price'') (preorder node) =
                 Some priceNode \<and>
               getElementNodeVal priceNode = (ptext, None) \<and>
               Price item = firstPriceToken ptext \<and>
               disk w' = snd (os_WriteFile e (''data/'' @ itemID @ ''.json'') item (disk w)))) \<and>
         (\<forall>s. FindStringSubmatch priceRegEx s =
                (if list_ex digit s then Some [firstPriceToken s] else None)) \<and>
         firstPriceToken ''$1,234.56 to $1,500.00'' = ''1,234''"
proof (intro conjI impI allI)
  assume "processItemNode e node w = (None, w')"
  from processItemNode_nil [OF this] obtain itemID href price title condition where
    m: "mandatoryFields node = Inr (itemID, href, price, title)"
    and d: "disk w' = snd (os_WriteFile e (''data/'' @ itemID @ ''.json'')
                 \<lparr>Title = title, Condition = condition, Price = price, ProductURL = href\<rparr>
                 (disk w))"
    by blast
  from mandatoryFields_price [OF assms m] obtain priceNode ptext where
    "find (attrQualifies ''span'' ''class'' ''s-item__price'') (preorder node) = Some priceNode"
    "getElementNodeVal priceNode = (ptext, None)" "price = firstPriceToken ptext"
    by blast
  with d show "\<exists>priceNode ptext itemID item.
               find (attrQualifies ''span'' ''class'' ''s-item__price'') (preorder node) =
                 Some priceNode \<and>
               getElementNodeVal priceNode = (ptext, None) \<and>
               Price item = firstPriceToken ptext \<and>
               disk w' = snd (os_WriteFile e (''data/'' @ itemID @ ''.json'') item (disk w))"
    by (intro exI [of _ priceNode] exI [of _ ptext] exI [of _ itemID]
          exI [of _ "\<lparr>Title = title, Condition = condition, Price = price, ProductURL = href\<rparr>"])
       simp
next
  fix s
  show "FindStringSubmatch priceRegEx s =
          (if list_ex digit s then Some [firstPriceToken s] else None)"
    by (rule FindStringSubmatch_priceRegEx)
next
  show "firstPriceToken ''$1,234.56 to $1,500.00'' = ''1,234''"
    by (simp add: firstPriceToken_def digit_def separator_def)
qed

theorem price_is_first_numeric_token_witness:
  "parsedShape goodItem \<and>
   processItemNode (exampleEnv False []) goodItem emptyWorld =
     (None, emptyWorld\<lparr>disk := [(''data/123.json'',
        \<lparr>Title = ''Dell Latitude'', Condition = ''Pre-Owned'', Price = ''1,234'',
           ProductURL = ''/itm/123?hash=1''\<rparr>)]\<rparr>) \<and>
   (\<exists>priceNode ptext itemID item.
      find (attrQualifies ''span'' ''class'' ''s-item__price'') (preorder goodItem) =
        Some priceNode \<and>
      getElementNodeVal priceNode = (ptext, None) \<and>
      Price item = firstPriceToken ptext \<and>
      [(''data/123.json'',
        \<lparr>Title = ''Dell Latitude'', Condition = ''Pre-Owned'', Price = ''1,234'',
           ProductURL = ''/itm/123?hash=1''\<rparr>)] =
        snd (os_WriteFile (exampleEnv False []) (''data/'' @ itemID @ ''.json'') item [])) \<and>
   FindStringSubmatch priceRegEx ''EUR 20,50'' = Some [''20,50'']"
proof -
  let ?e = "exampleEnv False [] :: files env"
  let ?w = "emptyWorld\<lparr>disk := [(''data/123.json'',
        \<lparr>Title = ''Dell Latitude'', Condition = ''Pre-Owned'', Price = ''1,234'',
           ProductURL = ''/itm/123?hash=1''\<rparr>)]\<rparr>"
  have shape: "parsedShape goodItem"
    by (simp add: example_defs)
  have run: "processItemNode ?e goodItem emptyWorld = (None, ?w)"
    by (simp add: pipeline_defs example_defs)
  note inst = price_is_first_numeric_token [OF shape, of ?e emptyWorld ?w]
  from inst run
  have "\<exists>priceNode ptext itemID item.
      find (attrQualifies ''span'' ''class'' ''s-item__price'') (preorder goodItem) =
        Some priceNode \<and>
      getElementNodeVal priceNode = (ptext, None) \<and>
      Price item = firstPriceToken ptext \<and>
      disk ?w = snd (os_WriteFile ?e (''data/'' @ itemID @ ''.json'') item (disk emptyWorld))"
    by blast
  then have found: "\<exists>priceNode ptext itemID item.
      find (attrQualifies ''span'' ''class'' ''s-item__price'') (preorder goodItem) =
        Some priceNode \<and>
      getElementNodeVal priceNode = (ptext, None) \<and>
      Price item = firstPriceToken ptext \<and>
      [(''data/123.json'',
        \<lparr>Title = ''Dell Latitude'', Condition = ''Pre-Owned'', Price = ''1,234'',
           ProductURL = ''/itm/123?hash=1''\<rparr>)] =
        snd (os_WriteFile ?e (''data/'' @ itemID @ ''.json'') item [])"
    by (simp add: emptyWorld_def)
  from inst have "FindStringSubmatch priceRegEx ''EUR 20,50'' =
      (if list_ex digit ''EUR 20,50'' then Some [firstPriceToken ''EUR 20,50''] else None)"
    by blast
  then have token: "FindStringSubmatch priceRegEx ''EUR 20,50'' = Some [''20,50'']"
    by (simp add: firstPriceToken_def digit_def separator_def)
  from shape run found token show ?thesis by blast
qed

text \<open>
  C9, as stated: the title comes from the first \<^verbatim>\<open><span>\<close> with the attribute
  \<^verbatim>\<open>role="heading"\<close>, and the item fails when there is no such span. In the first entry
  below the first span of that role holds \<^verbatim>\<open>HP EliteBook\<close>, and the title written is
  \<^verbatim>\<open>Sponsored\<close>, the text of the span before it, whose role is \<^verbatim>\<open>subheading\<close>. The second
  entry has no span of the role \<^verbatim>\<open>heading\<close> at all, and its extraction succeeds.
\<close>

theorem title_role_counterexample:
  "findFirstElementByAttr subheadingItem ''div'' ''class'' ''s-item__title'' = Some subheadingTitle \<and>
   find roleIsHeading (preorder subheadingTitle) =
     Some (element ''span'' [attr ''role'' ''heading''] [textNode ''HP EliteBook'']) \<and>
   processItemNode (exampleEnv False []) subheadingItem emptyWorld =
     (None,
      \<lparr>stdout = [''WARNING::Condition DIV node not found 789\<newline>''], fetched = [],
         disk = [(''data/789.json'',
           \<lparr>Title = ''Sponsored'', Condition = '''', Price = ''9.99'',
              ProductURL = ''/itm/789?hash=4''\<rparr>)]\<rparr>) \<and>
   find roleIsHeading (preorder onlySubheadingItem) = None \<and>
   processItemNode (exampleEnv False []) onlySubheadingItem emptyWorld =
     (None,
      \<lparr>stdout = [''WARNING::Condition DIV node not found 790\<newline>''], fetched = [],
         disk = [(''data/790.json'',
           \<lparr>Title = ''Sponsored'', Condition = '''', Price = ''9.99'',
              ProductURL = ''/itm/790?hash=5''\<rparr>)]\<rparr>)"
  by (simp add: pipeline_defs example_defs subheadingTitle_def subheadingItem_def
      onlySubheadingItem_def roleIsHeading_def fmt_Print_def)

text \<open>
  C9, amended: for every item node, the title is the direct text (the data of the first
  text child), unchanged, of the first \<^verbatim>\<open><span>\<close> whose \<^verbatim>\<open>role\<close> attribute contains
  \<^verbatim>\<open>heading\<close> as a substring, inside the first \<^verbatim>\<open><div>\<close> whose class contains
  \<^verbatim>\<open>s-item__title\<close>; both are found as \<^verbatim>\<open>findFirstByAttr\<close> finds, by containment of the
  value. If either node is absent the extraction of the item fails and leaves the world
  unchanged.
\<close>

theorem title_from_heading_span:
  assumes "parsedShape node"
  shows "(processItemNode e node w = (None, w') \<longrightarrow>
            (\<exists>titleDivNode titleNode textChild itemID item.
               find (attrQualifies ''div'' ''class'' ''s-item__title'') (preorder node) =
                 Some titleDivNode \<and>
               find (attrQualifies ''span'' ''role'' ''heading'') (preorder titleDivNode) =
                 Some titleNode \<and>
               find (\<lambda>c. Type c = TextNode) (Children titleNode) = Some textChild \<and>
               Title item = Data textChild \<and>
               disk w' = snd (os_WriteFile e (''data/'' @ itemID @ ''.json'') item (disk w)))) \<and>
         (find (attrQualifies ''div'' ''class'' ''s-item__title'') (preorder node) = None \<longrightarrow>
            (\<exists>err. processItemNode e node w = (Some err, w))) \<and>
         (\<forall>titleDivNode.
            find (attrQualifies ''div'' ''class'' ''s-item__title'') (preorder node) =
              Some titleDivNode \<longrightarrow>
            find (attrQualifies ''span'' ''role'' ''heading'') (preorder titleDivNode) = None \<longrightarrow>
            (\<exists>err. processItemNode e node w = (Some err, w)))"
proof (intro conjI impI allI)
  assume "processItemNode e node w = (None, w')"
  from processItemNode_nil [OF this] obtain itemID href price title condition where
    m: "mandatoryFields node = Inr (itemID, href, price, title)"
    and d: "disk w' = snd (os_WriteFile e (''data/'' @ itemID @ ''.json'')
                 \<lparr>Title = title, Condition = condition, Price = price, ProductURL = href\<rparr>
                 (disk w))"
    by blast
  from mandatoryFields_title [OF assms m] obtain titleDivNode titleNode textChild where
    "find (attrQualifies ''div'' ''class'' ''s-item__title'') (preorder node) = Some titleDivNode"
    "find (attrQualifies ''span'' ''role'' ''heading'') (preorder titleDivNode) = Some titleNode"
    "find (\<lambda>c. Type c = TextNode) (Children titleNode) = Some textChild"
    "title = Data textChild"
    by blast
  with d show "\<exists>titleDivNode titleNode textChild itemID item.
               find (attrQualifies ''div'' ''class'' ''s-item__title'') (preorder node) =
                 Some titleDivNode \<and>
               find (attrQualifies ''span'' ''role'' ''heading'') (preorder titleDivNode) =
                 Some titleNode \<and>
               find (\<lambda>c. Type c = TextNode) (Children titleNode) = Some textChild \<and>
               Title item = Data textChild \<and>
               disk w' = snd (os_WriteFile e (''data/'' @ itemID @ ''.json'') item (disk w))"
    by (intro exI [of _ titleDivNode] exI [of _ titleNode] exI [of _ textChild]
          exI [of _ itemID]
          exI [of _ "\<lparr>Title = title, Condition = condition, Price = price, ProductURL = href\<rparr>"])
       simp
next
  assume none: "find (attrQualifies ''div'' ''class'' ''s-item__title'') (preorder node) = None"
  show "\<exists>err. processItemNode e node w = (Some err, w)"
  proof (cases node rule: mandatoryFields_cases)
    case (failed err)
    then show ?thesis by (blast intro: mandatoryFields_Inl)
  next
    case (extracted itemID href price title)
    from mandatoryFields_title [OF assms extracted] none show ?thesis by auto
  qed
next
  fix titleDivNode
  assume d: "find (attrQualifies ''div'' ''class'' ''s-item__title'') (preorder node) =
      Some titleDivNode"
    and none: "find (attrQualifies ''span'' ''role'' ''heading'') (preorder titleDivNode) = None"
  show "\<exists>err. processItemNode e node w = (Some err, w)"
  proof (cases node rule: mandatoryFields_cases)
    case (failed err)
    then show ?thesis by (blast intro: mandatoryFields_Inl)
  next
    case (extracted itemID href price title)
    from mandatoryFields_title [OF assms extracted] d none show ?thesis by auto
  qed
qed

theorem title_from_heading_span_witness:
  "parsedShape goodItem \<and>
   processItemNode (exampleEnv False []) goodItem emptyWorld =
     (None, emptyWorld\<lparr>disk := [(''data/123.json'',
        \<lparr>Title = ''Dell Latitude'', Condition = ''Pre-Owned'', Price = ''1,234'',
           ProductURL = ''/itm/123?hash=1''\<rparr>)]\<rparr>) \<and>
   (\<exists>titleDivNode titleNode textChild itemID item.
      find (attrQualifies ''div'' ''class'' ''s-item__title'') (preorder goodItem) =
        Some titleDivNode \<and>
      find (attrQualifies ''span'' ''role'' ''heading'') (preorder titleDivNode) =
        Some titleNode \<and>
      find (\<lambda>c. Type c = TextNode) (Children titleNode) = Some textChild \<and>
      Title item = Data textChild \<and>
      [(''data/123.json'',
        \<lparr>Title = ''Dell Latitude'', Condition = ''Pre-Owned'', Price = ''1,234'',
           ProductURL = ''/itm/123?hash=1''\<rparr>)] =
        snd (os_WriteFile (exampleEnv False []) (''data/'' @ itemID @ ''.json'') item [])) \<and>
   parsedShape noLinkItem \<and>
   find (attrQualifies ''div'' ''class'' ''s-item__title'') (preorder noLinkItem) = None \<and>
   (\<exists>err. processItemNode (exampleEnv False []) noLinkItem emptyWorld = (Some err, emptyWorld)) \<and>
   parsedShape noHeadingItem \<and>
   (\<exists>err. processItemNode (exampleEnv False []) noHeadingItem emptyWorld =
           (Some err, emptyWorld))"
proof -
  let ?e = "exampleEnv False [] :: files env"
  let ?w = "emptyWorld\<lparr>disk := [(''data/123.json'',
        \<lparr>Title = ''Dell Latitude'', Condition = ''Pre-Owned'', Price = ''1,234'',
           ProductURL = ''/itm/123?hash=1''\<rparr>)]\<rparr>"
  have shape: "parsedShape goodItem"
    by (simp add: example_defs)
  have run: "processItemNode ?e goodItem emptyWorld = (None, ?w)"
    by (simp add: pipeline_defs example_defs)
  from title_from_heading_span [OF shape, of ?e emptyWorld ?w] run
  have "\<exists>titleDivNode titleNode textChild itemID item.
      find (attrQualifies ''div'' ''class'' ''s-item__title'') (preorder goodItem) =
        Some titleDivNode \<and>
      find (attrQualifies ''span'' ''role'' ''heading'') (preorder titleDivNode) =
        Some titleNode \<and>
      find (\<lambda>c. Type c = TextNode) (Children titleNode) = Some textChild \<and>
      Title item = Data textChild \<and>
      disk ?w = snd (os_WriteFile ?e (''data/'' @ itemID @ ''.json'') item (disk emptyWorld))"
    by blast
  then have found: "\<exists>titleDivNode titleNode textChild itemID item.
      find (attrQualifies ''div'' ''class'' ''s-item__title'') (preorder goodItem) =
        Some titleDivNode \<and>
      find (attrQualifies ''span'' ''role'' ''heading'') (preorder titleDivNode) =
        Some titleNode \<and>
      find (\<lambda>c. Type c = TextNode) (Children titleNode) = Some textChild \<and>
      Title item = Data textChild \<and>
      [(''data/123.json'',
        \<lparr>Title = ''Dell Latitude'', Condition = ''Pre-Owned'', Price = ''1,234'',
           ProductURL = ''/itm/123?hash=1''\<rparr>)] =
        snd (os_WriteFile ?e (''data/'' @ itemID @ ''.json'') item [])"
    by (simp add: emptyWorld_def)
  have shape2: "parsedShape noLinkItem"
    by (simp add: example_defs)
  have nodiv: "find (attrQualifies ''div'' ''class'' ''s-item__title'') (preorder noLinkItem) = None"
    by (simp add: example_defs attrQualifies_def)
  from title_from_heading_span [OF shape2, of ?e emptyWorld] nodiv
  have failed2: "\<exists>err. processItemNode ?e noLinkItem emptyWorld = (Some err, emptyWorld)"
    by blast
  have shape3: "parsedShape noHeadingItem"
    by (simp add: example_defs)
  have div3: "find (attrQualifies ''div'' ''class'' ''s-item__title'') (preorder noHeadingItem) =
      Some (element ''div'' [attr ''class'' ''s-item__title'']
              [element ''span'' [attr ''class'' ''BOLD''] [textNode ''Lenovo ThinkPad'']])"
    by (simp add: example_defs attrQualifies_def)
  have nospan: "find (attrQualifies ''span'' ''role'' ''heading'')
      (preorder (element ''div'' [attr ''class'' ''s-item__title'']
              [element ''span'' [attr ''class'' ''BOLD''] [textNode ''Lenovo ThinkPad'']])) = None"
    by (simp add: example_defs attrQualifies_def)
  from title_from_heading_span [OF shape3, of ?e emptyWorld] div3 nospan
  have failed3: "\<exists>err. processItemNode ?e noHeadingItem emptyWorld = (Some err, emptyWorld)"
    by blast
  from shape run found shape2 nodiv failed2 shape3 failed3 show ?thesis by blast
qed





section \<open>Properties of the page crawler\<close>

text \<open>What \<^verbatim>\<open>processItemNode\<close> returns depends on the node alone.\<close>

lemma processItemNode_result:
  "fst (processItemNode e node w) = fst (processItemNode e' node w')"
  by (auto simp: processItemNode_factor split: sum.splits prod.splits option.splits)

lemma runItems_fetched:
  "fetched (runItems e ns w) = fetched w"
proof (induction ns arbitrary: w)
  case Nil
  then show ?case by simp
next
  case (Cons n ns)
  have "fetched (snd (processItemNode e n w)) = fetched w"
    by (auto simp: processItemNode_factor writeItem_def fmt_Print_def
             split: sum.splits prod.splits option.splits)
  with Cons show ?case by simp
qed

lemma getPageHTML_os:
  "getPageHTML (e\<lparr>os_Mkdir := mk, os_WriteFile := wr\<rparr>) url = getPageHTML e url"
  by (simp add: getPageHTML_def split: sum.splits)

lemma loopBody_control:
  "fst (loopBody (e\<lparr>os_Mkdir := mk, os_WriteFile := wr\<rparr>) pageURL w) = fst (loopBody e pageURL w)"
  unfolding loopBody_def Let_def getPageHTML_os
  by (auto split: prod.splits option.splits sum.splits)

text \<open>
  C10: even when all field extraction succeeds, persistence can fail silently. What
  \<^verbatim>\<open>processItemNode\<close> returns is the same whatever \<^verbatim>\<open>os.WriteFile\<close> does; with a file
  system whose writes all fail and change nothing, an item that extracts returns nil while
  the file system is as it was. What a pass of the loop of \<^verbatim>\<open>main\<close> decides is the same
  whatever \<^verbatim>\<open>os.Mkdir\<close> and \<^verbatim>\<open>os.WriteFile\<close> do.
\<close>

theorem persistence_failure_is_silent:
  "fst (processItemNode (e\<lparr>os_WriteFile := wr\<rparr>) node w) = fst (processItemNode e node w) \<and>
   ((\<forall>name item fs. \<exists>err. os_WriteFile e name item fs = (Some err, fs)) \<longrightarrow>
    processItemNode e node w = (None, w') \<longrightarrow> disk w' = disk w) \<and>
   fst (loopBody (e\<lparr>os_Mkdir := mk, os_WriteFile := wr\<rparr>) pageURL w) = fst (loopBody e pageURL w)"
proof (intro conjI impI)
  show "fst (processItemNode (e\<lparr>os_WriteFile := wr\<rparr>) node w) = fst (processItemNode e node w)"
    by (rule processItemNode_result)
next
  assume fails: "\<forall>name item fs. \<exists>err. os_WriteFile e name item fs = (Some err, fs)"
    and "processItemNode e node w = (None, w')"
  from processItemNode_nil [OF this(2)] obtain itemID item where
    d: "disk w' = snd (os_WriteFile e (''data/'' @ itemID @ ''.json'') item (disk w))"
    by blast
  from fails obtain err where
    "os_WriteFile e (''data/'' @ itemID @ ''.json'') item (disk w) = (Some err, disk w)"
    by blast
  with d show "disk w' = disk w" by simp
next
  show "fst (loopBody (e\<lparr>os_Mkdir := mk, os_WriteFile := wr\<rparr>) pageURL w) =
        fst (loopBody e pageURL w)"
    by (rule loopBody_control)
qed

theorem persistence_failure_is_silent_witness:
  "(\<forall>name item fs. \<exists>err. os_WriteFile (exampleEnv True []) name item fs = (Some err, fs)) \<and>
   processItemNode (exampleEnv True []) goodItem emptyWorld = (None, emptyWorld) \<and>
   disk emptyWorld = ([] :: files) \<and>
   fst (processItemNode
          ((exampleEnv True [])\<lparr>os_WriteFile := os_WriteFile (exampleEnv False [])\<rparr>)
          goodItem emptyWorld) = None"
proof -
  let ?e = "exampleEnv True [] :: files env"
  have fails: "\<forall>name item fs. \<exists>err. os_WriteFile ?e name item fs = (Some err, fs)"
    by (simp add: exampleEnv_def)
  have run: "processItemNode ?e goodItem emptyWorld = (None, emptyWorld)"
    by (simp add: pipeline_defs example_defs)
  note inst = persistence_failure_is_silent [where e = ?e
      and wr = "os_WriteFile (exampleEnv False [])" and node = goodItem
      and w = emptyWorld and w' = emptyWorld]
  from inst fails run have same: "disk emptyWorld = disk (emptyWorld :: files world)"
    by blast
  from inst run
  have ok: "fst (processItemNode (?e\<lparr>os_WriteFile := os_WriteFile (exampleEnv False [])\<rparr>)
      goodItem emptyWorld) = None"
    by simp
  have "disk emptyWorld = ([] :: files)"
    by (simp add: emptyWorld_def)
  with fails run ok show ?thesis by blast
qed

text \<open>
  C7: if the item search (tag \<^verbatim>\<open>li\<close>, class substring \<^verbatim>\<open>s-item\<close>) over a parsed page
  yields no node, the process prints \<^verbatim>\<open>Failed to get items\<close> and exits with status 1 in
  that pass of the loop: the page just fetched is the last one fetched, and nothing is
  written.
\<close>

theorem no_items_is_fatal:
  assumes "getPageHTML e pageURL = (bodyHTML, None)"
    and "html_Parse e bodyHTML = Inr pageHTML"
    and "go_len (findItemElementsByClass pageHTML ''li'' ''s-item'' (Some [])) = 0"
  shows "mainLoop e (Suc fuel) pageURL w =
           (Some 1, w\<lparr>stdout := stdout w @ [''Failed to get items\<newline>''],
                      fetched := fetched w @ [pageURL]\<rparr>)"
proof -
  from assms have "loopBody e pageURL w =
      (Exit1, w\<lparr>stdout := stdout w @ [''Failed to get items\<newline>''],
                 fetched := fetched w @ [pageURL]\<rparr>)"
    by (cases "findItemElementsByClass pageHTML ''li'' ''s-item'' (Some [])")
       (simp_all add: loopBody_def fmt_Print_def)
  then show ?thesis by simp
qed

theorem no_items_is_fatal_witness:
  "getPageHTML (exampleEnv False [(startURL, emptyResultsPage)]) startURL = (startURL, None) \<and>
   html_Parse (exampleEnv False [(startURL, emptyResultsPage)]) startURL = Inr emptyResultsPage \<and>
   go_len (findItemElementsByClass emptyResultsPage ''li'' ''s-item'' (Some [])) = 0 \<and>
   mainLoop (exampleEnv False [(startURL, emptyResultsPage)]) (Suc 7) startURL emptyWorld =
     (Some 1, \<lparr>stdout = [''Failed to get items\<newline>''], fetched = [startURL], disk = []\<rparr>)"
proof -
  let ?e = "exampleEnv False [(startURL, emptyResultsPage)] :: files env"
  have a: "getPageHTML ?e startURL = (startURL, None)"
    by (simp add: getPageHTML_def exampleEnv_def)
  have b: "html_Parse ?e startURL = Inr emptyResultsPage"
    by (simp add: exampleEnv_def)
  have c: "go_len (findItemElementsByClass emptyResultsPage ''li'' ''s-item'' (Some [])) = 0"
    by (simp add: emptyResultsPage_def element_def attr_def textNode_def)
  from no_items_is_fatal [OF a b c, of 7 emptyWorld]
  have "mainLoop ?e (Suc 7) startURL emptyWorld =
     (Some 1, \<lparr>stdout = [''Failed to get items\<newline>''], fetched = [startURL], disk = []\<rparr>)"
    by (simp add: emptyWorld_def)
  with a b c show ?thesis by blast
qed

text \<open>
  What \<^verbatim>\<open>getElementAttrByName\<close> returns beside an error is the empty string.
\<close>

lemma getElementAttrByName_error:
  "getElementAttrByName node attrName = (v, Some err) \<Longrightarrow> v = ''''"
  by (auto simp: getElementAttrByName_def split: if_splits option.splits)

text \<open>
  C1, as stated: when the href of the next-page anchor cannot be read, the loop goes on with
  the old page URL and can refetch the same page for ever. On the page below, served under
  the start URL, the next pass is made with the empty URL, the start URL is fetched once,
  and the program exits with status 1 in its second pass.
\<close>

theorem next_href_failure_counterexample:
  "fst (loopBody (exampleEnv False [(startURL, brokenNextPage)]) startURL emptyWorld) =
     NextPass '''' \<and>
   startURL \<noteq> '''' \<and>
   fst (mainLoop (exampleEnv False [(startURL, brokenNextPage)]) 5 startURL emptyWorld) = Some 1 \<and>
   fetched (snd (mainLoop (exampleEnv False [(startURL, brokenNextPage)]) 5 startURL emptyWorld)) =
     [startURL, '''']"
proof -
  let ?e = "exampleEnv False [(startURL, brokenNextPage)] :: files env"
  let ?w1 = "\<lparr>stdout = [''Found 1 items\<newline>'',
        ''ERROR::Failed to get next page ERROR::Attribute href not found\<newline>''],
      fetched = [startURL],
      disk = [(''data/123.json'',
        \<lparr>Title = ''Dell Latitude'', Condition = ''Pre-Owned'', Price = ''1,234'',
           ProductURL = ''/itm/123?hash=1''\<rparr>)]\<rparr> :: files world"
  let ?w2 = "?w1\<lparr>stdout := stdout ?w1 @
        [''ERROR::Can't make http request: unsupported protocol scheme\<newline>''],
      fetched := [startURL, '''']\<rparr>"
  have first: "loopBody ?e startURL emptyWorld = (NextPass '''', ?w1)"
    by (simp add: crawler_defs pipeline_defs example_defs)
  have second: "loopBody ?e '''' ?w1 = (Exit1, ?w2)"
    by (simp add: crawler_defs example_defs)
  have five: "(5::nat) = Suc (Suc 3)"
    by simp
  have two: "mainLoop ?e (Suc (Suc fuel)) startURL emptyWorld = (Some 1, ?w2)" for fuel
    by (simp add: first second)
  from two [of 3] have "mainLoop ?e 5 startURL emptyWorld = (Some 1, ?w2)"
    by (simp only: five)
  moreover have "startURL \<noteq> ''''"
    by (simp add: startURL_def)
  ultimately show ?thesis
    using first by simp
qed

text \<open>
  C1, amended: in the paginating step, if a next-page anchor was found but reading its href
  fails, the failure is printed and the program does not stop there: the assignment stores
  what \<^verbatim>\<open>getElementAttrByName\<close> returned beside its error, the empty string, in
  \<^verbatim>\<open>pageURL\<close>, and the next pass of the loop is made with the empty URL, not with the old
  one. If the HTTP client fails on the empty URL, that second pass fetches nothing else and
  the program exits with status 1.
\<close>

theorem next_href_failure_continues_with_empty_URL:
  assumes "getPageHTML e pageURL = (bodyHTML, None)"
    and "html_Parse e bodyHTML = Inr pageHTML"
    and "findItemElementsByClass pageHTML ''li'' ''s-item'' (Some []) = Some itemElementList"
    and "itemElementList \<noteq> []"
    and "findFirstElementByAttr pageHTML ''a'' ''class'' ''pagination__next icon-link'' =
           Some nextButtonNode"
    and "getElementAttrByName nextButtonNode ''href'' = (url, Some err)"
  shows "\<exists>w'. loopBody e pageURL w = (NextPass '''', w') \<and>
              last (stdout w') = ''ERROR::Failed to get next page '' @ err @ ''\<newline>'' \<and>
              fetched w' = fetched w @ [pageURL] \<and>
              mainLoop e (Suc fuel) pageURL w = mainLoop e fuel '''' w' \<and>
              (\<forall>body err'. getPageHTML e '''' = (body, Some err') \<longrightarrow>
                 fst (mainLoop e (Suc (Suc fuel)) pageURL w) = Some 1 \<and>
                 fetched (snd (mainLoop e (Suc (Suc fuel)) pageURL w)) =
                   fetched w @ [pageURL, ''''])"
proof -
  from assms(6) have url: "url = ''''"
    by (rule getElementAttrByName_error)
  define w1 where "w1 = runItems e itemElementList
      ((fmt_Print (''Found '' @ string_of_nat (length itemElementList) @ '' items\<newline>'')
          (w\<lparr>fetched := fetched w @ [pageURL]\<rparr>))
       \<lparr>disk := snd (os_Mkdir e ''data'' (disk w))\<rparr>)"
  define w' where "w' = fmt_Print (''ERROR::Failed to get next page '' @ err @ ''\<newline>'') w1"
  from assms url have body: "loopBody e pageURL w = (NextPass '''', w')"
    by (simp add: loopBody_def Let_def w'_def w1_def fmt_Print_def)
  have out: "last (stdout w') = ''ERROR::Failed to get next page '' @ err @ ''\<newline>''"
    by (simp add: w'_def fmt_Print_def)
  have fetched: "fetched w' = fetched w @ [pageURL]"
    by (simp add: w'_def w1_def fmt_Print_def runItems_fetched)
  from body have loop: "mainLoop e (Suc fuel) pageURL w = mainLoop e fuel '''' w'" for fuel
    by simp
  have exits: "fst (mainLoop e (Suc (Suc fuel)) pageURL w) = Some 1 \<and>
      fetched (snd (mainLoop e (Suc (Suc fuel)) pageURL w)) = fetched w @ [pageURL, '''']"
    if "getPageHTML e '''' = (body, Some err')" for body err'
  proof -
    from that have "loopBody e '''' w' =
        (Exit1, fmt_Print (err' @ ''\<newline>'') (w'\<lparr>fetched := fetched w' @ ['''']\<rparr>))"
      by (simp add: loopBody_def)
    then have "mainLoop e (Suc fuel) '''' w' =
        (Some 1, fmt_Print (err' @ ''\<newline>'') (w'\<lparr>fetched := fetched w' @ ['''']\<rparr>))"
      by simp
    with loop [of "Suc fuel"] fetched show ?thesis
      by (simp add: fmt_Print_def)
  qed
  from body out fetched loop exits show ?thesis
    by blast
qed

theorem next_href_failure_continues_with_empty_URL_witness:
  "getPageHTML (exampleEnv False [(startURL, brokenNextPage)]) startURL = (startURL, None) \<and>
   html_Parse (exampleEnv False [(startURL, brokenNextPage)]) startURL = Inr brokenNextPage \<and>
   findItemElementsByClass brokenNextPage ''li'' ''s-item'' (Some []) = Some [goodItem] \<and>
   [goodItem] \<noteq> [] \<and>
   findFirstElementByAttr brokenNextPage ''a'' ''class'' ''pagination__next icon-link'' =
     Some (element ''a'' [attr ''class'' ''pagination__next icon-link''] []) \<and>
   getElementAttrByName (element ''a'' [attr ''class'' ''pagination__next icon-link''] []) ''href'' =
     ('''', Some ''ERROR::Attribute href not found'') \<and>
   (\<exists>w'. loopBody (exampleEnv False [(startURL, brokenNextPage)]) startURL emptyWorld =
           (NextPass '''', w') \<and>
         last (stdout w') =
           ''ERROR::Failed to get next page ERROR::Attribute href not found\<newline>'' \<and>
         fetched w' = [startURL]) \<and>
   getPageHTML (exampleEnv False [(startURL, brokenNextPage)]) '''' =
     ('''', Some ''ERROR::Can't make http request: unsupported protocol scheme'') \<and>
   fst (mainLoop (exampleEnv False [(startURL, brokenNextPage)]) (Suc (Suc 40)) startURL
          emptyWorld) = Some 1 \<and>
   fetched (snd (mainLoop (exampleEnv False [(startURL, brokenNextPage)]) (Suc (Suc 40)) startURL
          emptyWorld)) = [startURL, '''']"
proof -
  let ?e = "exampleEnv False [(startURL, brokenNextPage)] :: files env"
  let ?a = "element ''a'' [attr ''class'' ''pagination__next icon-link''] []"
  have a: "getPageHTML ?e startURL = (startURL, None)"
    by (simp add: getPageHTML_def exampleEnv_def)
  have b: "html_Parse ?e startURL = Inr brokenNextPage"
    by (simp add: exampleEnv_def)
  have c: "findItemElementsByClass brokenNextPage ''li'' ''s-item'' (Some []) = Some [goodItem]"
    by (simp add: example_defs)
  have d: "[goodItem] \<noteq> []"
    by simp
  have f: "findFirstElementByAttr brokenNextPage ''a'' ''class'' ''pagination__next icon-link'' =
      Some ?a"
    by (simp add: example_defs)
  have g: "getElementAttrByName ?a ''href'' = ('''', Some ''ERROR::Attribute href not found'')"
    by (simp add: getElementAttrByName_def element_def attr_def)
  have h: "getPageHTML ?e '''' =
      ('''', Some ''ERROR::Can't make http request: unsupported protocol scheme'')"
    by (simp add: getPageHTML_def exampleEnv_def startURL_def)
  from next_href_failure_continues_with_empty_URL [OF a b c d f g, of emptyWorld 40]
  obtain w' where w': "loopBody ?e startURL emptyWorld = (NextPass '''', w')"
      "last (stdout w') =
         ''ERROR::Failed to get next page '' @ ''ERROR::Attribute href not found'' @ ''\<newline>''"
      "fetched w' = fetched (emptyWorld :: files world) @ [startURL]"
      "\<forall>body err'. getPageHTML ?e '''' = (body, Some err') \<longrightarrow>
         fst (mainLoop ?e (Suc (Suc 40)) startURL emptyWorld) = Some 1 \<and>
         fetched (snd (mainLoop ?e (Suc (Suc 40)) startURL emptyWorld)) =
           fetched (emptyWorld :: files world) @ [startURL, '''']"
    by blast
  from w'(4) h have exits: "fst (mainLoop ?e (Suc (Suc 40)) startURL emptyWorld) = Some 1"
      "fetched (snd (mainLoop ?e (Suc (Suc 40)) startURL emptyWorld)) = [startURL, '''']"
    by (simp_all add: emptyWorld_def)
  from w'(1-3) have pass: "\<exists>w'. loopBody ?e startURL emptyWorld = (NextPass '''', w') \<and>
         last (stdout w') =
           ''ERROR::Failed to get next page ERROR::Attribute href not found\<newline>'' \<and>
         fetched w' = [startURL]"
    by (simp add: emptyWorld_def)
  from a b c d f g pass h exits show ?thesis
    by blast
qed

text \<open>
  C6, at a failing input: a page with two entries, the first of which has no link. The
  extraction of that entry returns a descriptive error and leaves the world as it was; the
  pass of the loop goes on, writes the second entry and ends normally; and all that the pass
  prints is the count of the entries: no message about the skipped entry is emitted.
\<close>

theorem item_error_is_not_reported:
  "processItemNode (exampleEnv False [(startURL, mixedPage)]) noLinkItem emptyWorld =
     (Some ''ERROR::Item link node not found'', emptyWorld) \<and>
   loopBody (exampleEnv False [(startURL, mixedPage)]) startURL emptyWorld =
     (Break,
      \<lparr>stdout = [''Found 2 items\<newline>''], fetched = [startURL],
         disk = [(''data/123.json'',
           \<lparr>Title = ''Dell Latitude'', Condition = ''Pre-Owned'', Price = ''1,234'',
              ProductURL = ''/itm/123?hash=1''\<rparr>)]\<rparr>)"
  by (simp add: crawler_defs pipeline_defs example_defs)

end
